theory Spec2Isabelle
  imports Complex_Main "HOL-Library.Log_Nat" "HOL-Library.AList"
begin

section \<open>Python values used by the agent\<close>

text \<open>
  Strings are \<^typ>\<open>string\<close>; a character stands for one Unicode code point below 256, so
  the multiplication sign U+00D7 and the division sign U+00F7 of \<^verbatim>\<open>mcp_server.py\<close> are
  single characters, and \<^const>\<open>length\<close> counts what Python's \<^verbatim>\<open>len\<close> counts.
  Python's \<^verbatim>\<open>int\<close> is \<^typ>\<open>int\<close>.
\<close>

datatype py_error =
    ZeroDivisionError
  | OverflowError
  | KeyError string
  | TypeError
  | ValueError string

subsection \<open>Binary floating point\<close>

text \<open>
  A Python \<^verbatim>\<open>float\<close> is an IEEE 754 double. A finite one is carried by its exact rational
  value (\<open>Fin 0\<close> is the positive zero, \<open>NegZero\<close> the negative one); every arithmetic
  result is rounded to the nearest double, ties to the even significand.
\<close>

datatype pyfloat = Fin rat | NegZero | PInf | NInf | NaN

definition pow2 :: "int \<Rightarrow> rat" where
  "pow2 k = (if 0 \<le> k then 2 ^ nat k else 1 / 2 ^ nat (- k))"

definition ilog2 :: "rat \<Rightarrow> int" where
  \<comment> \<open>for \<open>0 < q\<close>: the exponent \<open>e\<close> with \<open>2^e \<le> q < 2^(e+1)\<close>\<close>
  "ilog2 q =
     (let k = bitlen (fst (quotient_of q)) - bitlen (snd (quotient_of q))
      in if pow2 k \<le> q then k else k - 1)"

definition round_half_even :: "rat \<Rightarrow> int" where
  "round_half_even x =
     (let f = \<lfloor>x\<rfloor>; d = x - of_int f
      in if d < 1 / 2 then f else if 1 / 2 < d then f + 1
         else if even f then f else f + 1)"

definition round_rat :: "rat \<Rightarrow> rat" where
  \<comment> \<open>the double nearest to \<open>q\<close> (53-bit significand, subnormals below \<open>2^-1022\<close>)\<close>
  "round_rat q =
     (if q = 0 then 0
      else let e = max (ilog2 \<bar>q\<bar>) (- 1022); ulp = pow2 (e - 52)
           in sgn q * of_int (round_half_even (\<bar>q\<bar> / ulp)) * ulp)"

definition dbl_overflows :: "rat \<Rightarrow> bool" where
  \<comment> \<open>halfway between the largest double and \<open>2^1024\<close>, and beyond\<close>
  "dbl_overflows q = (2 ^ 1024 - 2 ^ 970 \<le> \<bar>q\<bar>)"

definition round_double :: "rat \<Rightarrow> pyfloat" where
  "round_double q =
     (if dbl_overflows q then (if 0 < q then PInf else NInf)
      else if round_rat q = 0 \<and> q < 0 then NegZero
      else Fin (round_rat q))"

definition py_true_div :: "int \<Rightarrow> int \<Rightarrow> py_error + pyfloat" where
  \<comment> \<open>\<^verbatim>\<open>a / b\<close> on two ints\<close>
  "py_true_div a b =
     (if b = 0 then Inl ZeroDivisionError
      else if dbl_overflows (of_int a / of_int b) then Inl OverflowError
      else if a = 0 \<and> b < 0 then Inr NegZero
      else Inr (round_double (of_int a / of_int b)))"

fun fl_is_zero :: "pyfloat \<Rightarrow> bool" where
  "fl_is_zero (Fin q) = (q = 0)"
| "fl_is_zero NegZero = True"
| "fl_is_zero _ = False"

fun fl_is_inf :: "pyfloat \<Rightarrow> bool" where
  "fl_is_inf PInf = True"
| "fl_is_inf NInf = True"
| "fl_is_inf _ = False"

fun fl_sign :: "pyfloat \<Rightarrow> bool" where
  \<comment> \<open>the sign bit\<close>
  "fl_sign (Fin q) = (q < 0)"
| "fl_sign NegZero = True"
| "fl_sign NInf = True"
| "fl_sign _ = False"

fun fl_value :: "pyfloat \<Rightarrow> rat" where
  "fl_value (Fin q) = q"
| "fl_value _ = 0"

definition float_times :: "pyfloat \<Rightarrow> pyfloat \<Rightarrow> pyfloat" where
  \<comment> \<open>\<^verbatim>\<open>x * y\<close> on two floats\<close>
  "float_times x y =
     (if x = NaN \<or> y = NaN then NaN
      else if (fl_is_inf x \<and> fl_is_zero y) \<or> (fl_is_zero x \<and> fl_is_inf y) then NaN
      else if fl_is_inf x \<or> fl_is_inf y
        then (if fl_sign x \<noteq> fl_sign y then NInf else PInf)
      else if fl_is_zero x \<or> fl_is_zero y
        then (if fl_sign x \<noteq> fl_sign y then NegZero else Fin 0)
      else round_double (fl_value x * fl_value y))"

subsection \<open>Rendering numbers\<close>

fun show_nat :: "nat \<Rightarrow> string" where
  "show_nat n =
     (if n < 10 then [''0123456789'' ! n]
      else show_nat (n div 10) @ [''0123456789'' ! (n mod 10)])"

definition show_int :: "int \<Rightarrow> string" where
  \<comment> \<open>\<^verbatim>\<open>str(n)\<close> for an int\<close>
  "show_int n = (if n < 0 then ''-'' @ show_nat (nat (- n)) else show_nat (nat n))"

definition format_1f :: "pyfloat \<Rightarrow> string" where
  \<comment> \<open>\<^verbatim>\<open>f"{x:.1f}"\<close>: the exact value rounded to one decimal, ties to even\<close>
  "format_1f x =
     (case x of
        Fin q \<Rightarrow>
          (let k = nat (round_half_even (\<bar>q\<bar> * 10))
           in (if q < 0 then ''-'' else '''') @ show_nat (k div 10) @ ''.'' @ show_nat (k mod 10))
      | NegZero \<Rightarrow> ''-0.0''
      | PInf \<Rightarrow> ''inf''
      | NInf \<Rightarrow> ''-inf''
      | NaN \<Rightarrow> ''nan'')"

subsection \<open>Slices and case folding\<close>

definition py_slice_from :: "int \<Rightarrow> 'a list \<Rightarrow> 'a list" where
  \<comment> \<open>\<^verbatim>\<open>xs[i:]\<close>: a negative start counts from the end, and the start is clipped\<close>
  "py_slice_from i xs =
     (let n = int (length xs);
          s = (if i < 0 then max (i + n) 0 else min i n)
      in drop (nat s) xs)"

definition py_lower_char :: "char \<Rightarrow> char" where
  "py_lower_char c =
     (let n = (of_char c :: nat)
      in if (65 \<le> n \<and> n \<le> 90) \<or> (192 \<le> n \<and> n \<le> 222 \<and> n \<noteq> 215)
         then char_of (n + 32) else c)"

definition py_lower :: "string \<Rightarrow> string" where
  \<comment> \<open>\<^verbatim>\<open>s.lower()\<close> on code points below 256\<close>
  "py_lower s = map py_lower_char s"

definition py_is_space :: "char \<Rightarrow> bool" where
  \<comment> \<open>the code points below 256 that \<^verbatim>\<open>str.strip()\<close> removes\<close>
  "py_is_space c =
     (let n = (of_char c :: nat)
      in (9 \<le> n \<and> n \<le> 13) \<or> (28 \<le> n \<and> n \<le> 32) \<or> n = 133 \<or> n = 160)"

definition py_strip :: "string \<Rightarrow> string" where
  "py_strip s = rev (dropWhile py_is_space (rev (dropWhile py_is_space s)))"

definition startswith :: "string \<Rightarrow> string \<Rightarrow> bool" where
  \<comment> \<open>\<^verbatim>\<open>s.startswith(p)\<close>\<close>
  "startswith s p = (take (length p) s = p)"

subsection \<open>Comparing floats\<close>

fun fl_rank :: "pyfloat \<Rightarrow> int" where
  "fl_rank NInf = - 1"
| "fl_rank PInf = 1"
| "fl_rank _ = 0"

definition fl_less :: "pyfloat \<Rightarrow> pyfloat \<Rightarrow> bool" where
  \<comment> \<open>\<^verbatim>\<open>x < y\<close>: false whenever one side is NaN; the two zeros are equal\<close>
  "fl_less x y =
     (x \<noteq> NaN \<and> y \<noteq> NaN \<and>
      (fl_rank x < fl_rank y \<or> (fl_rank x = fl_rank y \<and> fl_value x < fl_value y)))"

definition py_min :: "pyfloat \<Rightarrow> pyfloat \<Rightarrow> pyfloat" where
  \<comment> \<open>\<^verbatim>\<open>min(a, b)\<close>: the first argument unless the second is smaller\<close>
  "py_min a b = (if fl_less b a then b else a)"

definition py_max :: "pyfloat \<Rightarrow> pyfloat \<Rightarrow> pyfloat" where
  \<comment> \<open>\<^verbatim>\<open>max(a, b)\<close>: the first argument unless the second is greater\<close>
  "py_max a b = (if fl_less a b then b else a)"

definition py_lit :: "rat \<Rightarrow> pyfloat" where
  \<comment> \<open>a decimal float literal of the source: the double nearest to it\<close>
  "py_lit q = round_double q"

subsection \<open>Parsed JSON\<close>

text \<open>
  What \<^verbatim>\<open>json.loads\<close> returns: \<^verbatim>\<open>None\<close>, a bool, an int, a float, a str, a list or a
  dict with string keys (an association list read through \<^const>\<open>map_of\<close>).
\<close>

datatype json =
    JNull
  | JBool bool
  | JInt int
  | JFloat pyfloat
  | JStr string
  | JList "json list"
  | JDict "(string \<times> json) list"

section \<open>The session memory store (\<^verbatim>\<open>mcp_server.py\<close>, \<^verbatim>\<open>models.py\<close>)\<close>

text \<open>
  Field names that several Pydantic models share carry a prefix here: \<open>rq_\<close> for
  \<^verbatim>\<open>StoreResultRequest\<close>, \<open>pr_\<close> for \<^verbatim>\<open>ProblemResult\<close>, \<open>rs_\<close> for
  \<^verbatim>\<open>StoreResultResponse\<close>. A timestamp is the reading of the clock, a natural number.
  The dict \<^verbatim>\<open>operation_stats\<close> is a map.
\<close>

record StoreResultRequest =
  rq_problem :: string
  rq_result :: string
  rq_success :: bool
  rq_strategy_used :: "string option"
  rq_confidence :: "pyfloat option"

record ProblemResult =
  pr_timestamp :: nat
  pr_problem :: string
  pr_result :: string
  pr_success :: bool
  pr_strategy_used :: "string option"
  pr_confidence :: "pyfloat option"

record MemoryStatus =
  total_problems :: int
  success_count :: int
  error_count :: int
  success_rate :: string
  operation_stats :: "string \<rightharpoonup> int"
  recent_history :: "ProblemResult list"

record StoreResultResponse =
  rs_status :: string
  rs_problem :: string
  rs_result :: string
  rs_success :: bool
  rs_total_problems :: int

record ModularMemoryStore =
  session_history :: "ProblemResult list"
  memory_status :: MemoryStatus

definition MemoryStatus_default :: MemoryStatus where
  "MemoryStatus_default =
     \<lparr> total_problems = 0, success_count = 0, error_count = 0, success_rate = ''0%'',
       operation_stats =
         [''addition'' \<mapsto> 0, ''subtraction'' \<mapsto> 0, ''multiplication'' \<mapsto> 0, ''division'' \<mapsto> 0],
       recent_history = [] \<rparr>"

definition init_store :: ModularMemoryStore where
  \<comment> \<open>\<^verbatim>\<open>ModularMemoryStore.__init__\<close>\<close>
  "init_store = \<lparr> session_history = [], memory_status = MemoryStatus_default \<rparr>"

definition incr_stat :: "string \<Rightarrow> (string \<rightharpoonup> int) \<Rightarrow> py_error + (string \<rightharpoonup> int)" where
  \<comment> \<open>\<^verbatim>\<open>stats[k] += 1\<close>: a missing key raises\<close>
  "incr_stat k stats =
     (case stats k of None \<Rightarrow> Inl (KeyError k) | Some v \<Rightarrow> Inr (stats(k \<mapsto> v + 1)))"

definition update_operation_stats ::
  "string \<Rightarrow> (string \<rightharpoonup> int) \<Rightarrow> py_error option \<times> (string \<rightharpoonup> int)" where
  \<comment> \<open>the four tests run in order; a raise keeps the increments made before it\<close>
  "update_operation_stats problem s0 =
     (case (if CHR ''+'' \<in> set problem then incr_stat ''addition'' s0 else Inr s0) of
        Inl e \<Rightarrow> (Some e, s0)
      | Inr s1 \<Rightarrow>
     (case (if CHR ''-'' \<in> set problem then incr_stat ''subtraction'' s1 else Inr s1) of
        Inl e \<Rightarrow> (Some e, s1)
      | Inr s2 \<Rightarrow>
     (case (if CHR ''*'' \<in> set problem \<or> CHR 0xD7 \<in> set problem
               \<or> CHR ''x'' \<in> set (py_lower problem)
            then incr_stat ''multiplication'' s2 else Inr s2) of
        Inl e \<Rightarrow> (Some e, s2)
      | Inr s3 \<Rightarrow>
     (case (if CHR ''/'' \<in> set problem \<or> CHR 0xF7 \<in> set problem
            then incr_stat ''division'' s3 else Inr s3) of
        Inl e \<Rightarrow> (Some e, s3)
      | Inr s4 \<Rightarrow> (None, s4)))))"

definition percent_1f :: "int \<Rightarrow> int \<Rightarrow> py_error + string" where
  \<comment> \<open>\<^verbatim>\<open>f"{(a / b) * 100:.1f}%"\<close>\<close>
  "percent_1f a b =
     (case py_true_div a b of
        Inl e \<Rightarrow> Inl e
      | Inr q \<Rightarrow> Inr (format_1f (float_times q (Fin 100)) @ ''%''))"

definition problem_record :: "nat \<Rightarrow> StoreResultRequest \<Rightarrow> ProblemResult" where
  \<comment> \<open>the \<^verbatim>\<open>ProblemResult(...)\<close> that \<^verbatim>\<open>store_result\<close> builds; \<open>now\<close> is the clock\<close>
  "problem_record now request =
     \<lparr> pr_timestamp = now, pr_problem = rq_problem request, pr_result = rq_result request,
       pr_success = rq_success request, pr_strategy_used = rq_strategy_used request,
       pr_confidence = rq_confidence request \<rparr>"

definition store_result ::
  "nat \<Rightarrow> StoreResultRequest \<Rightarrow> ModularMemoryStore
     \<Rightarrow> (py_error + StoreResultResponse) \<times> ModularMemoryStore" where
  \<comment> \<open>a raise leaves the updates made before it\<close>
  "store_result now request st =
     (let h = session_history st @ [problem_record now request];
          m0 = memory_status st;
          m1 = m0\<lparr>total_problems := total_problems m0 + 1\<rparr>;
          m2 = (if rq_success request then m1\<lparr>success_count := success_count m1 + 1\<rparr>
                else m1\<lparr>error_count := error_count m1 + 1\<rparr>)
      in case percent_1f (success_count m2) (total_problems m2) of
           Inl e \<Rightarrow> (Inl e, \<lparr>session_history = h, memory_status = m2\<rparr>)
         | Inr rate \<Rightarrow>
             (let m3 = m2\<lparr>success_rate := rate\<rparr>
              in case update_operation_stats (rq_problem request) (operation_stats m3) of
                   (Some e, s) \<Rightarrow>
                     (Inl e, \<lparr>session_history = h, memory_status = m3\<lparr>operation_stats := s\<rparr>\<rparr>)
                 | (None, s) \<Rightarrow>
                     (let m4 = m3\<lparr>operation_stats := s, recent_history := py_slice_from (- 10) h\<rparr>
                      in (Inr \<lparr> rs_status = ''Result stored successfully'',
                                rs_problem = rq_problem request, rs_result = rq_result request,
                                rs_success = rq_success request,
                                rs_total_problems = total_problems m4 \<rparr>,
                          \<lparr>session_history = h, memory_status = m4\<rparr>))))"

fun store_all :: "(nat \<times> StoreResultRequest) list \<Rightarrow> ModularMemoryStore \<Rightarrow> ModularMemoryStore" where
  \<comment> \<open>a sequence of \<^verbatim>\<open>store_result\<close> calls, each with its clock reading\<close>
  "store_all [] st = st"
| "store_all ((now, request) # calls) st = store_all calls (snd (store_result now request st))"

definition get_memory_status :: "ModularMemoryStore \<Rightarrow> MemoryStatus \<times> ModularMemoryStore" where
  "get_memory_status st = (memory_status st, st)"

definition reset_memory :: "ModularMemoryStore \<Rightarrow> (string \<times> string) \<times> ModularMemoryStore" where
  \<comment> \<open>returns the response's \<^verbatim>\<open>status\<close> and \<^verbatim>\<open>message\<close>\<close>
  "reset_memory st =
     ((''Memory reset successfully'',
       ''All learning history cleared. Agent will start fresh with conservative approach.''),
      \<lparr>session_history = [], memory_status = MemoryStatus_default\<rparr>)"

definition analyze_recent_trend :: "ModularMemoryStore \<Rightarrow> string" where
  "analyze_recent_trend st =
     (if length (session_history st) < 2 then ''insufficient data''
      else let recent_5 = py_slice_from (- 5) (session_history st);
               recent_successes = int (length (filter pr_success recent_5))
           in if 4 \<le> recent_successes then ''strongly improving''
              else if 3 \<le> recent_successes then ''improving''
              else if 2 \<le> recent_successes then ''mixed''
              else ''declining'')"

text \<open>
  The summary text of \<^verbatim>\<open>get_memory_summary\<close> is kept as the values its f-strings
  interpolate, one constructor per line of text.
\<close>

datatype summary_line =
    FreshStart
  | Header
  | TotalProblems int
  | SuccessRate string int int
  | OperationExperience "string \<rightharpoonup> int"
  | RecentTrend string
  | RecentErrors int
  | LastProblem string string bool
  | LastStrategy string

record MemorySummary =
  summary :: "summary_line list"
  raw_data :: MemoryStatus

definition get_memory_summary ::
  "ModularMemoryStore \<Rightarrow> (py_error + MemorySummary) \<times> ModularMemoryStore" where
  "get_memory_summary st =
     (let m = memory_status st in
      if total_problems m = 0
      then (Inr \<lparr>summary = [FreshStart], raw_data = m\<rparr>, st)
      else
        (case py_true_div (success_count m) (total_problems m) of
           Inl e \<Rightarrow> (Inl e, st)
         | Inr q \<Rightarrow>
            (let t0 = [Header, TotalProblems (total_problems m),
                       SuccessRate (format_1f (float_times q (Fin 100)))
                         (success_count m) (total_problems m),
                       OperationExperience (operation_stats m),
                       RecentTrend (analyze_recent_trend st)];
                 t1 = (if 0 < error_count m then t0 @ [RecentErrors (error_count m)] else t0);
                 t2 = (case rev (session_history st) of
                         [] \<Rightarrow> t1
                       | r # _ \<Rightarrow>
                           (let t = t1 @ [LastProblem (pr_problem r) (pr_result r)
                                            (pr_success r)]
                            in case pr_strategy_used r of
                                 None \<Rightarrow> t
                               | Some s \<Rightarrow> if s = [] then t else t @ [LastStrategy s]))
             in (Inr \<lparr>summary = t2, raw_data = m\<rparr>, st))))"

text \<open>The \<^verbatim>\<open>get_recent_history\<close> branch of \<^verbatim>\<open>call_tool\<close>.\<close>

record history_data =
  recent_problems :: "ProblemResult list"
  count :: int
  hd_success_rate :: string
  most_recent_result :: "ProblemResult option"
  trend :: string

definition neg_index :: "json \<Rightarrow> py_error + int" where
  \<comment> \<open>\<^verbatim>\<open>-limit\<close> as a slice bound: an int (or bool); anything else is a TypeError\<close>
  "neg_index v =
     (case v of
        JInt n \<Rightarrow> Inr (- n)
      | JBool b \<Rightarrow> Inr (- (if b then 1 else 0))
      | _ \<Rightarrow> Inl TypeError)"

definition get_recent_history ::
  "(string \<rightharpoonup> json) \<Rightarrow> ModularMemoryStore \<Rightarrow> (py_error + history_data) \<times> ModularMemoryStore" where
  \<comment> \<open>\<open>Inl\<close>: the handler's \<^verbatim>\<open>except\<close> answers with the error object\<close>
  "get_recent_history arguments st =
     (let limit = (case arguments ''limit'' of None \<Rightarrow> JInt 5 | Some v \<Rightarrow> v)
      in case (if session_history st \<noteq> []
               then (case neg_index limit of
                       Inl e \<Rightarrow> Inl e
                     | Inr i \<Rightarrow> Inr (py_slice_from i (session_history st)))
               else Inr []) of
           Inl e \<Rightarrow> (Inl e, st)
         | Inr recent \<Rightarrow>
            (case (if recent \<noteq> []
                   then percent_1f (int (length (filter pr_success recent))) (int (length recent))
                   else Inr ''0%'') of
               Inl e \<Rightarrow> (Inl e, st)
             | Inr rate \<Rightarrow>
                (Inr \<lparr> recent_problems = recent, count = int (length recent),
                       hd_success_rate = rate,
                       most_recent_result = (if recent \<noteq> [] then Some (last recent) else None),
                       trend = analyze_recent_trend st \<rparr>, st)))"

section \<open>The four stages and the orchestrator\<close>

subsection \<open>Stage outputs (\<^verbatim>\<open>models.py\<close>)\<close>

text \<open>
  The \<^verbatim>\<open>Literal[...]\<close> fields are datatypes. The input models share field names, so
  \<^verbatim>\<open>MemoryInput\<close>, \<^verbatim>\<open>DecisionInput\<close> and \<^verbatim>\<open>ActionInput\<close> prefix theirs with \<open>mi_\<close>,
  \<open>di_\<close> and \<open>ai_\<close>; \<^verbatim>\<open>PerceptionInput\<close> holds the expression alone.
\<close>

datatype complexity = Simple | Medium | Complex

datatype strategy = conservative_approach | standard_verification | confident_direct

datatype solving_method =
  direct_calculation | standard_with_check | step_by_step_verification | conservative_detailed

datatype verification = Minimal | Standard | High | Extra

datatype risk = LowRisk | MediumRisk | HighRisk

datatype operand = Num pyfloat | Str string

record PerceptionOutput =
  is_valid :: bool
  operands :: "operand list"
  operators :: "string list"
  complexity :: complexity
  requires_order_ops :: bool
  estimated_difficulty :: int
  error_message :: "string option"
  perception_notes :: string

record MemoryOutput =
  session_success_rate :: string
  strategy_recommendation :: strategy
  confidence_modifier :: pyfloat
  similar_problems_found :: int
  memory_insights :: string
  recommended_approach :: string

record DecisionOutput =
  selected_method :: solving_method
  final_confidence :: pyfloat
  show_working_steps :: bool
  verification_level :: verification
  reasoning :: string
  execution_strategy :: string
  risk_assessment :: risk

record ActionOutput =
  result :: string
  steps :: "string list"
  confidence :: pyfloat
  verification :: string
  execution_notes :: string

record MemoryInput =
  mi_expression :: string
  mi_perception_data :: PerceptionOutput
  memory_summary :: string

record DecisionInput =
  di_expression :: string
  di_perception_data :: PerceptionOutput
  memory_data :: MemoryOutput

record ActionInput =
  ai_expression :: string
  ai_perception_data :: PerceptionOutput
  decision_data :: DecisionOutput

record CognitiveAnalysisResult =
  expression :: string
  perception :: PerceptionOutput
  memory :: MemoryOutput
  decision :: DecisionOutput
  action :: ActionOutput
  success :: bool
  timestamp :: nat

subsection \<open>The oracle and the libraries\<close>

text \<open>
  A prompt is a fixed text around the stage's input, so it is kept as the stage and that
  input. The oracle answers its \<open>n\<close>-th call with a text or by raising; the calls made so far
  are the log that every stage extends by its prompt.
\<close>

datatype prompt =
    PerceptionPrompt string
  | MemoryPrompt MemoryInput
  | DecisionPrompt DecisionInput
  | ActionPrompt ActionInput

datatype reply = Raises string | Text string

type_synonym generative_model = "nat \<Rightarrow> prompt \<Rightarrow> reply"

text \<open>
  What the stages take from \<^verbatim>\<open>json\<close>, the interpreter and Pydantic, as parameters:
  \<open>json_loads\<close> (\<open>Inl\<close>: the text of the \<^verbatim>\<open>JSONDecodeError\<close>), \<^verbatim>\<open>repr\<close>, \<^verbatim>\<open>float\<close> on a
  string, the text of an interpreter exception, the text of the \<^verbatim>\<open>TypeError\<close> for a parsed
  value that is no mapping, and the four validating constructors (\<open>Inl\<close>: the text of the
  \<^verbatim>\<open>ValidationError\<close>).
\<close>

record pylib =
  json_loads :: "string \<Rightarrow> string + json"
  py_repr :: "json \<Rightarrow> string"
  str_to_float :: "string \<Rightarrow> pyfloat option"
  exc_text :: "py_error \<Rightarrow> string"
  non_mapping_text :: "json \<Rightarrow> string"
  PerceptionOutput_model :: "(string \<times> json) list \<Rightarrow> string + PerceptionOutput"
  MemoryOutput_model :: "(string \<times> json) list \<Rightarrow> string + MemoryOutput"
  DecisionOutput_model :: "(string \<times> json) list \<Rightarrow> string + DecisionOutput"
  ActionOutput_model :: "(string \<times> json) list \<Rightarrow> string + ActionOutput"

definition exc_str :: "pylib \<Rightarrow> py_error \<Rightarrow> string" where
  \<comment> \<open>\<^verbatim>\<open>str(e)\<close>\<close>
  "exc_str lib e = (case e of ValueError m \<Rightarrow> m | _ \<Rightarrow> exc_text lib e)"

definition parse_llm_response :: "pylib \<Rightarrow> string \<Rightarrow> py_error + json" where
  \<comment> \<open>\<^verbatim>\<open>_parse_llm_response\<close>, the same in all four stages\<close>
  "parse_llm_response lib response_text =
     (let t0 = py_strip response_text;
          t1 = (if startswith t0 ''```json'' then drop 7 (take (length t0 - 3) t0)
                else if startswith t0 ''```'' then drop 3 (take (length t0 - 3) t0)
                else t0);
          t2 = py_strip t1
      in case json_loads lib t2 of
           Inl m \<Rightarrow> Inl (ValueError (''Failed to parse LLM response as JSON: '' @ m))
         | Inr j \<Rightarrow> Inr j)"

subsection \<open>Perception (\<^verbatim>\<open>perception.py\<close>)\<close>

definition perception_error_response :: "string \<Rightarrow> string \<Rightarrow> PerceptionOutput" where
  "perception_error_response expr error_msg =
     \<lparr> is_valid = False, operands = [], operators = [], complexity = Simple,
       requires_order_ops = False, estimated_difficulty = 1,
       error_message = Some (''Perception analysis failed: '' @ error_msg),
       perception_notes =
         ''Failed to analyze expression '' @ [CHR 0x27] @ expr @ [CHR 0x27] @ '' due to: ''
           @ error_msg \<rparr>"

definition perception_analyze ::
  "pylib \<Rightarrow> generative_model \<Rightarrow> string \<Rightarrow> prompt list \<Rightarrow> PerceptionOutput \<times> prompt list" where
  "perception_analyze lib orc expr lg =
     (let p = PerceptionPrompt expr; lg' = lg @ [p]
      in case orc (length lg) p of
           Raises m \<Rightarrow> (perception_error_response expr m, lg')
         | Text t \<Rightarrow>
            (case parse_llm_response lib t of
               Inl e \<Rightarrow> (perception_error_response expr (exc_str lib e), lg')
             | Inr (JDict d) \<Rightarrow>
                (case PerceptionOutput_model lib d of
                   Inl m \<Rightarrow> (perception_error_response expr m, lg')
                 | Inr r \<Rightarrow> (r, lg'))
             | Inr j \<Rightarrow> (perception_error_response expr (non_mapping_text lib j), lg')))"

subsection \<open>Memory consultation (\<^verbatim>\<open>memory.py\<close>)\<close>

definition memory_error_response :: "MemoryInput \<Rightarrow> string \<Rightarrow> MemoryOutput" where
  "memory_error_response input_data error_msg =
     \<lparr> session_success_rate = ''Error accessing memory: '' @ error_msg,
       strategy_recommendation = conservative_approach,
       confidence_modifier = py_lit (6 / 10),
       similar_problems_found = 0,
       memory_insights = ''Memory consultation failed: '' @ error_msg @ ''. Using safe defaults.'',
       recommended_approach =
         ''Using conservative approach due to memory access issues. Recommend step-by-step verification and careful execution.'' \<rparr>"

definition memory_consult ::
  "pylib \<Rightarrow> generative_model \<Rightarrow> MemoryInput \<Rightarrow> prompt list \<Rightarrow> MemoryOutput \<times> prompt list" where
  "memory_consult lib orc input_data lg =
     (let p = MemoryPrompt input_data; lg' = lg @ [p]
      in case orc (length lg) p of
           Raises m \<Rightarrow> (memory_error_response input_data m, lg')
         | Text t \<Rightarrow>
            (case parse_llm_response lib t of
               Inl e \<Rightarrow> (memory_error_response input_data (exc_str lib e), lg')
             | Inr (JDict d) \<Rightarrow>
                (case MemoryOutput_model lib d of
                   Inl m \<Rightarrow> (memory_error_response input_data m, lg')
                 | Inr r \<Rightarrow> (r, lg'))
             | Inr j \<Rightarrow> (memory_error_response input_data (non_mapping_text lib j), lg')))"

subsection \<open>Decision (\<^verbatim>\<open>decision.py\<close>)\<close>

definition decision_error_response :: "DecisionInput \<Rightarrow> string \<Rightarrow> DecisionOutput" where
  "decision_error_response input_data error_msg =
     \<lparr> selected_method = conservative_detailed,
       final_confidence = Fin (1 / 2),
       show_working_steps = True,
       verification_level = High,
       reasoning = ''Decision system failed: '' @ error_msg @
         ''. Using safe default approach with high verification to ensure accuracy despite system error.'',
       execution_strategy =
         ''Careful step-by-step approach due to decision error. Will use detailed breakdown and multiple verification methods to compensate for decision system failure.'',
       risk_assessment = HighRisk \<rparr>"

definition decision_decide ::
  "pylib \<Rightarrow> generative_model \<Rightarrow> DecisionInput \<Rightarrow> prompt list \<Rightarrow> DecisionOutput \<times> prompt list" where
  "decision_decide lib orc input_data lg =
     (let p = DecisionPrompt input_data; lg' = lg @ [p]
      in case orc (length lg) p of
           Raises m \<Rightarrow> (decision_error_response input_data m, lg')
         | Text t \<Rightarrow>
            (case parse_llm_response lib t of
               Inl e \<Rightarrow> (decision_error_response input_data (exc_str lib e), lg')
             | Inr (JDict d) \<Rightarrow>
                (case DecisionOutput_model lib d of
                   Inl m \<Rightarrow> (decision_error_response input_data m, lg')
                 | Inr r \<Rightarrow> (r, lg'))
             | Inr j \<Rightarrow> (decision_error_response input_data (non_mapping_text lib j), lg')))"

subsection \<open>Action (\<^verbatim>\<open>action.py\<close>)\<close>

definition action_error_response :: "ActionInput \<Rightarrow> string \<Rightarrow> ActionOutput" where
  "action_error_response input_data error_msg =
     \<lparr> result = ''Error: '' @ error_msg,
       steps = [''Action execution failed: '' @ error_msg,
                ''Unable to complete mathematical calculation'',
                ''System error prevented normal execution''],
       confidence = Fin 0,
       verification = ''Unable to verify due to execution error'',
       execution_notes =
         ''Action execution system encountered an error: '' @ error_msg @ ''. '' @
         ''The mathematical calculation for '' @ [CHR 0x27] @ ai_expression input_data @
         [CHR 0x27] @ '' could not be completed. '' @
         ''This may be due to system issues, invalid expression format, or other technical problems.'' \<rparr>"

fun is_int_or_float :: "json \<Rightarrow> bool" where
  \<comment> \<open>\<^verbatim>\<open>isinstance(v, (int, float))\<close>; a bool is an int\<close>
  "is_int_or_float (JInt _) = True"
| "is_int_or_float (JFloat _) = True"
| "is_int_or_float (JBool _) = True"
| "is_int_or_float _ = False"

fun is_str :: "json \<Rightarrow> bool" where
  "is_str (JStr _) = True"
| "is_str _ = False"

definition py_str :: "pylib \<Rightarrow> json \<Rightarrow> string" where
  \<comment> \<open>\<^verbatim>\<open>str(v)\<close>; floats and containers print as their \<^verbatim>\<open>repr\<close>\<close>
  "py_str lib v =
     (case v of
        JStr s \<Rightarrow> s
      | JInt n \<Rightarrow> show_int n
      | JBool b \<Rightarrow> (if b then ''True'' else ''False'')
      | JNull \<Rightarrow> ''None''
      | _ \<Rightarrow> py_repr lib v)"

definition int_to_float :: "int \<Rightarrow> py_error + pyfloat" where
  "int_to_float n =
     (if dbl_overflows (of_int n) then Inl OverflowError else Inr (round_double (of_int n)))"

definition py_float :: "pylib \<Rightarrow> json \<Rightarrow> py_error + pyfloat" where
  \<comment> \<open>\<^verbatim>\<open>float(v)\<close>\<close>
  "py_float lib v =
     (case v of
        JFloat f \<Rightarrow> Inr f
      | JInt n \<Rightarrow> int_to_float n
      | JBool b \<Rightarrow> Inr (Fin (if b then 1 else 0))
      | JStr s \<Rightarrow>
          (case str_to_float lib s of
             None \<Rightarrow> Inl (ValueError ''could not convert string to float'')
           | Some f \<Rightarrow> Inr f)
      | _ \<Rightarrow> Inl TypeError)"

definition fix_str_field :: "pylib \<Rightarrow> string \<Rightarrow> (string \<times> json) list \<Rightarrow> (string \<times> json) list" where
  \<comment> \<open>one round of the loop over \<^verbatim>\<open>["verification", "execution_notes"]\<close>\<close>
  "fix_str_field lib field d =
     (case map_of d field of
        None \<Rightarrow> d
      | Some v \<Rightarrow> if \<not> is_str v then AList.update field (JStr (py_str lib v)) d else d)"

definition validate_and_fix_result ::
  "pylib \<Rightarrow> (string \<times> json) list \<Rightarrow> py_error + (string \<times> json) list" where
  "validate_and_fix_result lib result_dict =
     (let d1 = (case map_of result_dict ''result'' of
                  None \<Rightarrow> result_dict
                | Some v \<Rightarrow>
                    if is_int_or_float v
                    then AList.update ''result'' (JStr (py_str lib v)) result_dict
                    else if \<not> is_str v
                    then AList.update ''result'' (JStr (py_str lib v)) result_dict
                    else result_dict);
          d2 = (case map_of d1 ''steps'' of
                  None \<Rightarrow> d1
                | Some v \<Rightarrow>
                    (case v of
                       JList xs \<Rightarrow>
                         AList.update ''steps'' (JList (map (\<lambda>step. JStr (py_str lib step)) xs)) d1
                     | _ \<Rightarrow> AList.update ''steps'' (JList [JStr (py_str lib v)]) d1))
      in case (case map_of d2 ''confidence'' of
                 None \<Rightarrow> Inr d2
               | Some v \<Rightarrow>
                   (case py_float lib v of
                      Inr c \<Rightarrow>
                        Inr (AList.update ''confidence''
                               (JFloat (py_max (Fin 0) (py_min (Fin 1) c))) d2)
                    | Inl (ValueError m) \<Rightarrow>
                        Inr (AList.update ''confidence'' (JFloat (Fin (1 / 2))) d2)
                    | Inl TypeError \<Rightarrow>
                        Inr (AList.update ''confidence'' (JFloat (Fin (1 / 2))) d2)
                    | Inl e \<Rightarrow> Inl e)) of
           Inl e \<Rightarrow> Inl e
         | Inr d3 \<Rightarrow>
             Inr (fix_str_field lib ''execution_notes'' (fix_str_field lib ''verification'' d3)))"

definition action_execute ::
  "pylib \<Rightarrow> generative_model \<Rightarrow> ActionInput \<Rightarrow> prompt list \<Rightarrow> ActionOutput \<times> prompt list" where
  "action_execute lib orc input_data lg =
     (let p = ActionPrompt input_data; lg' = lg @ [p]
      in case orc (length lg) p of
           Raises m \<Rightarrow> (action_error_response input_data m, lg')
         | Text t \<Rightarrow>
            (case parse_llm_response lib t of
               Inl e \<Rightarrow> (action_error_response input_data (exc_str lib e), lg')
             | Inr (JDict d) \<Rightarrow>
                (case validate_and_fix_result lib d of
                   Inl e \<Rightarrow> (action_error_response input_data (exc_str lib e), lg')
                 | Inr d' \<Rightarrow>
                    (case ActionOutput_model lib d' of
                       Inl m \<Rightarrow> (action_error_response input_data m, lg')
                     | Inr r \<Rightarrow> (r, lg')))
             | Inr j \<Rightarrow> (action_error_response input_data (non_mapping_text lib j), lg')))"

subsection \<open>The orchestrator (\<^verbatim>\<open>agent_clean.py\<close>)\<close>

text \<open>
  Every stage catches its own exceptions, so nothing reaches the \<^verbatim>\<open>except\<close> of
  \<^verbatim>\<open>analyze\<close> and \<^verbatim>\<open>quick_solve\<close>; printing is left out. \<open>now\<close> is the clock when the
  bundle is created.
\<close>

definition create_error_result ::
  "nat \<Rightarrow> string \<Rightarrow> PerceptionOutput option \<Rightarrow> string \<Rightarrow> CognitiveAnalysisResult" where
  "create_error_result now expr perception_opt error_type =
     (let error_perception =
            (case perception_opt of
               Some p \<Rightarrow> p
             | None \<Rightarrow>
                 \<lparr> is_valid = False, operands = [], operators = [], complexity = Simple,
                   requires_order_ops = False, estimated_difficulty = 1,
                   error_message = Some (''Error in '' @ error_type),
                   perception_notes = ''Analysis failed due to '' @ error_type \<rparr>);
          error_memory =
            \<lparr> session_success_rate = ''Error - unable to access memory'',
              strategy_recommendation = conservative_approach,
              confidence_modifier = Fin (1 / 2),
              similar_problems_found = 0,
              memory_insights = ''Memory consultation failed due to '' @ error_type,
              recommended_approach = ''Conservative approach due to system error'' \<rparr>;
          error_decision =
            \<lparr> selected_method = conservative_detailed,
              final_confidence = Fin 0,
              show_working_steps = True,
              verification_level = Extra,
              reasoning = ''System error in '' @ error_type @ '' - using safest approach'',
              execution_strategy = ''Conservative detailed approach due to system error'',
              risk_assessment = HighRisk \<rparr>;
          error_action =
            \<lparr> result = ''Error: '' @ error_type,
              steps = [''Analysis failed due to '' @ error_type],
              confidence = Fin 0,
              verification = ''Cannot verify due to system error'',
              execution_notes = ''Execution failed due to '' @ error_type \<rparr>
      in \<lparr> expression = expr, perception = error_perception, memory = error_memory,
           decision = error_decision, action = error_action, success = False,
           timestamp = now \<rparr>)"

definition analyze ::
  "pylib \<Rightarrow> generative_model \<Rightarrow> nat \<Rightarrow> string \<Rightarrow> string \<Rightarrow> prompt list
     \<Rightarrow> CognitiveAnalysisResult \<times> prompt list" where
  "analyze lib orc now expr summary_text lg =
     (case perception_analyze lib orc expr lg of
        (perception_result, lg1) \<Rightarrow>
          if \<not> is_valid perception_result
          then (create_error_result now expr (Some perception_result) ''perception_error'', lg1)
          else
            (case memory_consult lib orc
                    \<lparr> mi_expression = expr, mi_perception_data = perception_result,
                      memory_summary = summary_text \<rparr> lg1 of
               (memory_result, lg2) \<Rightarrow>
            (case decision_decide lib orc
                    \<lparr> di_expression = expr, di_perception_data = perception_result,
                      memory_data = memory_result \<rparr> lg2 of
               (decision_result, lg3) \<Rightarrow>
            (case action_execute lib orc
                    \<lparr> ai_expression = expr, ai_perception_data = perception_result,
                      decision_data = decision_result \<rparr> lg3 of
               (action_result, lg4) \<Rightarrow>
                 (let is_successful = (\<not> startswith (result action_result) ''Error'')
                  in (\<lparr> expression = expr, perception = perception_result,
                         memory = memory_result, decision = decision_result,
                         action = action_result, success = is_successful,
                         timestamp = now \<rparr>, lg4))))))"



section \<open>A recorded session\<close>

text \<open>
  One concrete run, used for the closed instances below: the model answers the perception
  and the action prompt with a JSON text (the second one fenced) and is unavailable for the
  other two prompts; the library functions are given on the values of this run
  (\<open>8106479329266893 / 9007199254740992\<close> is the double that \<^verbatim>\<open>float("0.9")\<close> returns).
\<close>

definition sample_perception_text :: string where
  \<open>sample_perception_text =
     ''{"is_valid": true, "operands": [5, 3], "operators": ["+"], "complexity": "simple", "requires_order_ops": false, "estimated_difficulty": 1, "error_message": null, "perception_notes": "one addition"}''\<close>

definition sample_perception_json :: "(string \<times> json) list" where
  "sample_perception_json =
     [(''is_valid'', JBool True), (''operands'', JList [JInt 5, JInt 3]),
      (''operators'', JList [JStr ''+'']), (''complexity'', JStr ''simple''),
      (''requires_order_ops'', JBool False), (''estimated_difficulty'', JInt 1),
      (''error_message'', JNull), (''perception_notes'', JStr ''one addition'')]"

definition sample_perception :: PerceptionOutput where
  "sample_perception =
     \<lparr> is_valid = True, operands = [Num (Fin 5), Num (Fin 3)], operators = [''+''],
       complexity = Simple, requires_order_ops = False, estimated_difficulty = 1,
       error_message = None, perception_notes = ''one addition'' \<rparr>"

definition sample_action_body :: string where
  \<open>sample_action_body =
     ''{"result": 8, "steps": "5 + 3 = 8", "confidence": 1.5, "verification": "8 - 3 = 5", "execution_notes": null}''\<close>

definition sample_action_text :: string where
  "sample_action_text = ''```json '' @ sample_action_body @ '' ```''"

definition sample_action_json :: "(string \<times> json) list" where
  "sample_action_json =
     [(''result'', JInt 8), (''steps'', JStr ''5 + 3 = 8''),
      (''confidence'', JFloat (Fin (3 / 2))), (''verification'', JStr ''8 - 3 = 5''),
      (''execution_notes'', JNull)]"

definition sample_action_fixed :: "(string \<times> json) list" where
  "sample_action_fixed =
     [(''result'', JStr ''8''), (''steps'', JList [JStr ''5 + 3 = 8'']),
      (''confidence'', JFloat (Fin 1)), (''verification'', JStr ''8 - 3 = 5''),
      (''execution_notes'', JStr ''None'')]"

definition sample_action :: ActionOutput where
  "sample_action =
     \<lparr> result = ''8'', steps = [''5 + 3 = 8''], confidence = Fin 1,
       verification = ''8 - 3 = 5'', execution_notes = ''None'' \<rparr>"

definition sample_lib :: pylib where
  "sample_lib =
     \<lparr> json_loads =
         (\<lambda>t. if t = sample_perception_text then Inr (JDict sample_perception_json)
              else if t = sample_action_body then Inr (JDict sample_action_json)
              else Inl ''Expecting value: line 1 column 1 (char 0)''),
       py_repr = (\<lambda>v. if v = JList [] then ''[]'' else ''{}''),
       str_to_float =
         (\<lambda>s. if s = ''0.9'' then Some (Fin (8106479329266893 / 9007199254740992)) else None),
       exc_text =
         (\<lambda>e. case e of
                OverflowError \<Rightarrow> ''int too large to convert to float''
              | ZeroDivisionError \<Rightarrow> ''division by zero''
              | KeyError k \<Rightarrow> [CHR 0x27] @ k @ [CHR 0x27]
              | _ \<Rightarrow> ''bad operand type''),
       non_mapping_text = (\<lambda>j. ''argument after ** must be a mapping''),
       PerceptionOutput_model =
         (\<lambda>d. if d = sample_perception_json then Inr sample_perception
              else Inl ''validation error for PerceptionOutput''),
       MemoryOutput_model = (\<lambda>d. Inl ''validation error for MemoryOutput''),
       DecisionOutput_model = (\<lambda>d. Inl ''validation error for DecisionOutput''),
       ActionOutput_model =
         (\<lambda>d. if d = sample_action_fixed then Inr sample_action
              else Inl ''validation error for ActionOutput'') \<rparr>"

definition sample_model :: generative_model where
  "sample_model n p =
     (case p of
        PerceptionPrompt e \<Rightarrow> Text sample_perception_text
      | ActionPrompt i \<Rightarrow> Text sample_action_text
      | _ \<Rightarrow> Raises ''503 The model is overloaded'')"

definition failing_model :: generative_model where
  "failing_model n p = Raises ''503 The model is overloaded''"

definition garbled_model :: generative_model where
  "garbled_model n p = Text ''I think the answer is 8.''"

definition sample_request :: "bool \<Rightarrow> StoreResultRequest" where
  "sample_request ok =
     (if ok
      then \<lparr> rq_problem = ''2*3'', rq_result = ''6'', rq_success = True,
             rq_strategy_used = Some ''direct_calculation'', rq_confidence = Some (Fin 1) \<rparr>
      else \<lparr> rq_problem = ''1/0'', rq_result = ''Error: Division by zero'', rq_success = False,
             rq_strategy_used = None, rq_confidence = None \<rparr>)"

definition sample_calls :: "bool list \<Rightarrow> (nat \<times> StoreResultRequest) list" where
  \<comment> \<open>one call per outcome, at the clock readings \<open>0, 1, ...\<close>\<close>
  "sample_calls oks = map (\<lambda>(i, ok). (i, sample_request ok)) (enumerate 0 oks)"

definition sample_mix :: "nat \<Rightarrow> nat \<Rightarrow> (nat \<times> StoreResultRequest) list" where
  \<comment> \<open>\<open>s\<close> successful calls followed by \<open>f\<close> failed ones\<close>
  "sample_mix s f = sample_calls (replicate s True @ replicate f False)"

section \<open>Notions used in the statements\<close>

definition has_add :: "string \<Rightarrow> bool" where
  "has_add p = (CHR ''+'' \<in> set p)"

definition has_sub :: "string \<Rightarrow> bool" where
  "has_sub p = (CHR ''-'' \<in> set p)"

definition has_mul :: "string \<Rightarrow> bool" where
  "has_mul p = (CHR ''*'' \<in> set p \<or> CHR 0xD7 \<in> set p \<or> CHR ''x'' \<in> set (py_lower p))"

definition has_div :: "string \<Rightarrow> bool" where
  "has_div p = (CHR ''/'' \<in> set p \<or> CHR 0xF7 \<in> set p)"

definition bump_stats :: "string \<Rightarrow> (string \<rightharpoonup> int) \<Rightarrow> (string \<rightharpoonup> int)" where
  \<comment> \<open>the statistics after the four tests, when no key is missing\<close>
  "bump_stats p s =
     (\<lambda>k. if (k = ''addition'' \<and> has_add p) \<or> (k = ''subtraction'' \<and> has_sub p)
              \<or> (k = ''multiplication'' \<and> has_mul p) \<or> (k = ''division'' \<and> has_div p)
           then map_option (\<lambda>v. v + 1) (s k) else s k)"


definition rate_text :: "int \<Rightarrow> int \<Rightarrow> string" where
  \<comment> \<open>what \<^const>\<open>percent_1f\<close> returns when the division does not raise\<close>
  "rate_text a b =
     format_1f (float_times (round_double (of_int a / of_int b)) (Fin 100)) @ ''%''"

definition store_ready :: "ModularMemoryStore \<Rightarrow> bool" where
  \<comment> \<open>enough for \<^const>\<open>store_result\<close> to run to its end\<close>
  "store_ready st =
     (0 \<le> success_count (memory_status st) \<and>
      success_count (memory_status st) \<le> total_problems (memory_status st) \<and>
      {''addition'', ''subtraction'', ''multiplication'', ''division''}
        \<subseteq> dom (operation_stats (memory_status st)))"

definition store_inv :: "ModularMemoryStore \<Rightarrow> bool" where
  \<comment> \<open>the invariant of \<^verbatim>\<open>MemoryStatus\<close>\<close>
  "store_inv st =
     (success_count (memory_status st) + error_count (memory_status st)
        = total_problems (memory_status st) \<and>
      dom (operation_stats (memory_status st))
        = {''addition'', ''subtraction'', ''multiplication'', ''division''})"

definition successes :: "(nat \<times> StoreResultRequest) list \<Rightarrow> int" where
  "successes calls = int (length (filter (\<lambda>c. rq_success (snd c)) calls))"

text \<open>
  The success rate as the specification words it, not as the code computes it: the exact
  quotient \<open>100 * S / N\<close> rounded to one decimal place, then written with that decimal and
  a percent sign. The specification does not say where a half goes, so the rule for the
  halves is a parameter.
\<close>

definition round_half_up :: "rat \<Rightarrow> int" where
  "round_half_up x = \<lfloor>x + 1 / 2\<rfloor>"

definition round_half_down :: "rat \<Rightarrow> int" where
  "round_half_down x = \<lceil>x - 1 / 2\<rceil>"

definition spec_success_rate :: "(rat \<Rightarrow> int) \<Rightarrow> int \<Rightarrow> int \<Rightarrow> string" where
  "spec_success_rate rnd S N =
     (let k = nat (rnd (1000 * of_int S / of_int N))
      in show_nat (k div 10) @ ''.'' @ show_nat (k mod 10) @ ''%'')"

definition halfway :: "int \<Rightarrow> int \<Rightarrow> bool" where
  \<comment> \<open>\<open>100 * S / N\<close> lies exactly between two tenths\<close>
  "halfway S N =
     (1000 * of_int S / of_int N - of_int \<lfloor>1000 * of_int S / of_int N :: rat\<rfloor>
        = (1 / 2 :: rat))"

definition fixed_steps :: "pylib \<Rightarrow> json \<Rightarrow> json" where
  \<comment> \<open>the \<^verbatim>\<open>steps\<close> value after the coercion\<close>
  "fixed_steps lib v =
     JList (case v of JList xs \<Rightarrow> map (\<lambda>step. JStr (py_str lib step)) xs
            | _ \<Rightarrow> [JStr (py_str lib v)])"

definition clamped :: "pylib \<Rightarrow> json \<Rightarrow> json" where
  \<comment> \<open>the \<^verbatim>\<open>confidence\<close> value after the coercion, when it does not raise\<close>
  "clamped lib v =
     JFloat (case py_float lib v of
               Inr c \<Rightarrow> py_max (Fin 0) (py_min (Fin 1) c)
             | Inl e \<Rightarrow> Fin (1 / 2))"

section \<open>Floating point: the exponent\<close>

lemma pow2_powi: "pow2 k = 2 powi k"
  by (simp add: pow2_def power_int_def field_simps)

lemma pow2_pos: "0 < pow2 k"
  by (simp add: pow2_powi)

lemma pow2_add: "pow2 (a + b) = pow2 a * pow2 b"
  by (simp add: pow2_powi power_int_add)

lemma pow2_mono: "a \<le> b \<Longrightarrow> pow2 a \<le> pow2 b"
  by (simp add: pow2_powi power_int_increasing)

lemma pow2_of_bitlen:
  assumes "0 < n"
  shows "pow2 (bitlen n - 1) \<le> of_int n" and "of_int n < pow2 (bitlen n)"
proof -
  have l: "1 \<le> bitlen n" using assms by (simp add: bitlen_alt_def)
  have b: "2 ^ nat (bitlen n - 1) \<le> n" "n < 2 ^ nat (bitlen n)"
    using bitlen_bounds[OF assms] by auto
  have "(of_int (2 ^ nat (bitlen n - 1)) :: rat) \<le> of_int n"
    using b(1) of_int_le_iff by blast
  then show "pow2 (bitlen n - 1) \<le> of_int n" using l by (simp add: pow2_def)
  have "(of_int n :: rat) < of_int (2 ^ nat (bitlen n))"
    using b(2) of_int_less_iff by blast
  then show "of_int n < pow2 (bitlen n)" using l by (simp add: pow2_def)
qed

lemma ilog2_bounds:
  assumes "0 < q"
  shows "pow2 (ilog2 q) \<le> q \<and> q < pow2 (ilog2 q + 1)"
proof -
  obtain p d where pd: "quotient_of q = (p, d)" by (cases "quotient_of q")
  have d: "0 < d" using pd quotient_of_denom_pos by blast
  have q: "q = of_int p / of_int d" using pd quotient_of_div by blast
  have p: "0 < p" using assms d q by (simp add: zero_less_divide_iff)
  define k where "k = bitlen p - bitlen d"
  note P = pow2_of_bitlen[OF p] and D = pow2_of_bitlen[OF d]
  have dpos: "(0::rat) < of_int d" using d by simp
  have up: "q < pow2 (k + 1)"
  proof -
    have "pow2 (k + 1) * pow2 (bitlen d - 1) = pow2 (bitlen p)"
      by (simp add: k_def pow2_add[symmetric])
    then have "of_int p < pow2 (k + 1) * pow2 (bitlen d - 1)" using P(2) by simp
    also have "\<dots> \<le> pow2 (k + 1) * of_int d"
      using D(1) pow2_pos[of "k + 1"] by (simp add: mult_left_mono)
    finally show ?thesis using dpos by (simp add: q pos_divide_less_eq)
  qed
  have low: "pow2 (k - 1) \<le> q"
  proof -
    have e: "pow2 (k - 1) * pow2 (bitlen d) = pow2 (bitlen p - 1)"
      by (simp add: k_def pow2_add[symmetric])
    have "pow2 (k - 1) * of_int d \<le> pow2 (k - 1) * pow2 (bitlen d)"
      using D(2) pow2_pos[of "k - 1"] by (simp add: mult_left_mono)
    also have "\<dots> = pow2 (bitlen p - 1)" by (rule e)
    also have "\<dots> \<le> of_int p" by (rule P(1))
    finally show ?thesis using dpos by (simp add: q pos_le_divide_eq)
  qed
  have "ilog2 q = (if pow2 k \<le> q then k else k - 1)"
    by (simp add: ilog2_def pd k_def Let_def)
  then show ?thesis using up low by (auto simp: not_le)
qed

lemma ilog2_eqI:
  assumes "0 < q" "pow2 e \<le> q" "q < pow2 (e + 1)"
  shows "ilog2 q = e"
proof (rule ccontr)
  assume ne: "ilog2 q \<noteq> e"
  have b: "pow2 (ilog2 q) \<le> q" "q < pow2 (ilog2 q + 1)"
    using ilog2_bounds[OF assms(1)] by auto
  show False
  proof (cases "ilog2 q < e")
    case True
    then have "pow2 (ilog2 q + 1) \<le> pow2 e" by (simp add: pow2_mono)
    then show False using b(2) assms(2) by simp
  next
    case False
    then have "e + 1 \<le> ilog2 q" using ne by simp
    then have "pow2 (e + 1) \<le> pow2 (ilog2 q)" by (simp add: pow2_mono)
    then show False using b(1) assms(3) by simp
  qed
qed

lemma floor_numeral_div:
  "\<lfloor>numeral a / numeral b :: rat\<rfloor> = numeral a div numeral b"
  using floor_divide_of_int_eq[of "numeral a" "numeral b", where ?'a = rat] by simp

section \<open>The store: one call and many\<close>

lemma py_slice_from_neg:
  "0 < k \<Longrightarrow> py_slice_from (- int k) xs = drop (length xs - k) xs"
  by (auto simp: py_slice_from_def Let_def max_def nat_diff_distrib')

lemma py_slice_from_zero: "py_slice_from 0 xs = xs"
  by (simp add: py_slice_from_def)

lemma not_overflow_unit: "\<bar>q\<bar> \<le> 1 \<Longrightarrow> \<not> dbl_overflows q"
  by (simp add: dbl_overflows_def)

lemma guarded_incr_present:
  assumes "s k = Some v"
  shows "(if c then incr_stat k s else Inr s) =
         Inr (\<lambda>k'. if k' = k \<and> c then Some (v + 1) else s k')"
  using assms by (auto simp: incr_stat_def fun_eq_iff)

lemma update_operation_stats_present:
  assumes "s ''addition'' = Some a" "s ''subtraction'' = Some b"
    "s ''multiplication'' = Some c" "s ''division'' = Some d"
  shows "update_operation_stats p s = (None, bump_stats p s)"
proof -
  let ?s1 = "\<lambda>k'. if k' = ''addition'' \<and> has_add p then Some (a + 1) else s k'"
  let ?s2 = "\<lambda>k'. if k' = ''subtraction'' \<and> has_sub p then Some (b + 1) else ?s1 k'"
  let ?s3 = "\<lambda>k'. if k' = ''multiplication'' \<and> has_mul p then Some (c + 1) else ?s2 k'"
  let ?s4 = "\<lambda>k'. if k' = ''division'' \<and> has_div p then Some (d + 1) else ?s3 k'"
  have 1: "(if CHR ''+'' \<in> set p then incr_stat ''addition'' s else Inr s) = Inr ?s1"
    using guarded_incr_present[of s "''addition''" a "has_add p"] assms(1)
    by (simp add: has_add_def)
  have "?s1 ''subtraction'' = Some b" using assms(2) by simp
  from guarded_incr_present[of ?s1 "''subtraction''" b "has_sub p"] this
  have 2: "(if CHR ''-'' \<in> set p then incr_stat ''subtraction'' ?s1 else Inr ?s1) = Inr ?s2"
    by (simp add: has_sub_def)
  have "?s2 ''multiplication'' = Some c" using assms(3) by simp
  from guarded_incr_present[of ?s2 "''multiplication''" c "has_mul p"] this
  have 3: "(if CHR ''*'' \<in> set p \<or> CHR 0xD7 \<in> set p \<or> CHR ''x'' \<in> set (py_lower p)
            then incr_stat ''multiplication'' ?s2 else Inr ?s2) = Inr ?s3"
    by (simp add: has_mul_def)
  have "?s3 ''division'' = Some d" using assms(4) by simp
  from guarded_incr_present[of ?s3 "''division''" d "has_div p"] this
  have 4: "(if CHR ''/'' \<in> set p \<or> CHR 0xF7 \<in> set p
            then incr_stat ''division'' ?s3 else Inr ?s3) = Inr ?s4"
    by (simp add: has_div_def)
  have 5: "?s4 = bump_stats p s"
    using assms by (auto simp: bump_stats_def fun_eq_iff)
  show ?thesis
    unfolding update_operation_stats_def
    by (simp only: 1 2 3 4 5 sum.case)
qed

lemma py_true_div_ratio:
  assumes "0 \<le> a" "a \<le> b" "0 < b"
  shows "py_true_div a b = Inr (round_double (of_int a / of_int b))"
proof -
  have "\<bar>(of_int a :: rat) / of_int b\<bar> \<le> 1" using assms by simp
  then have "\<not> dbl_overflows (of_int a / of_int b)" by (rule not_overflow_unit)
  then show ?thesis using assms by (simp add: py_true_div_def)
qed

lemma percent_1f_ratio:
  assumes "0 \<le> a" "a \<le> b" "0 < b"
  shows "percent_1f a b =
         Inr (format_1f (float_times (round_double (of_int a / of_int b)) (Fin 100)) @ ''%'')"
  by (simp add: percent_1f_def py_true_div_ratio[OF assms])

lemma store_result_ready:
  assumes "store_ready st"
  shows "store_result now r st =
     (Inr \<lparr> rs_status = ''Result stored successfully'', rs_problem = rq_problem r,
            rs_result = rq_result r, rs_success = rq_success r,
            rs_total_problems = total_problems (memory_status st) + 1 \<rparr>,
      \<lparr> session_history = session_history st @ [problem_record now r],
        memory_status =
          \<lparr> total_problems = total_problems (memory_status st) + 1,
            success_count = success_count (memory_status st) + (if rq_success r then 1 else 0),
            error_count = error_count (memory_status st) + (if rq_success r then 0 else 1),
            success_rate =
              rate_text (success_count (memory_status st) + (if rq_success r then 1 else 0))
                (total_problems (memory_status st) + 1),
            operation_stats = bump_stats (rq_problem r) (operation_stats (memory_status st)),
            recent_history =
              py_slice_from (- 10) (session_history st @ [problem_record now r]) \<rparr> \<rparr>)"
proof -
  let ?m = "memory_status st"
  let ?sc = "success_count ?m + (if rq_success r then 1 else 0)"
  let ?tp = "total_problems ?m + 1"
  from assms have b: "0 \<le> ?sc" "?sc \<le> ?tp" "0 < ?tp"
    by (auto simp: store_ready_def)
  from assms obtain a1 a2 a3 a4 where keys:
    "operation_stats ?m ''addition'' = Some a1" "operation_stats ?m ''subtraction'' = Some a2"
    "operation_stats ?m ''multiplication'' = Some a3" "operation_stats ?m ''division'' = Some a4"
    unfolding store_ready_def by (auto simp: dom_def)
  have p: "percent_1f ?sc ?tp = Inr (rate_text ?sc ?tp)"
    unfolding rate_text_def by (rule percent_1f_ratio[OF b])
  have u: "update_operation_stats (rq_problem r) (operation_stats ?m)
           = (None, bump_stats (rq_problem r) (operation_stats ?m))"
    by (rule update_operation_stats_present[OF keys])
  show ?thesis
  proof (cases "rq_success r")
    case True
    with p have p': "percent_1f (success_count ?m + 1) (total_problems ?m + 1) =
                     Inr (rate_text (success_count ?m + 1) (total_problems ?m + 1))" by simp
    show ?thesis
      using True by (simp add: store_result_def Let_def p' u)
  next
    case False
    with p have p': "percent_1f (success_count ?m) (total_problems ?m + 1) =
                     Inr (rate_text (success_count ?m) (total_problems ?m + 1))" by simp
    show ?thesis
      using False by (simp add: store_result_def Let_def p' u)
  qed
qed

lemma bump_stats_None: "bump_stats p s k = None \<longleftrightarrow> s k = None"
  by (simp add: bump_stats_def)

lemma dom_bump_stats: "dom (bump_stats p s) = dom s"
  by (simp add: dom_def bump_stats_None)

lemma store_ready_init: "store_ready init_store"
  by (simp add: store_ready_def init_store_def MemoryStatus_default_def)

lemma store_ready_step:
  assumes "store_ready st"
  shows "store_ready (snd (store_result now r st))"
  using assms unfolding store_result_ready[OF assms]
  by (simp add: store_ready_def dom_bump_stats)

lemma store_all_append:
  "store_all (cs @ [(now, r)]) st = snd (store_result now r (store_all cs st))"
  by (induction cs arbitrary: st) auto

lemma store_all_ready: "store_ready st \<Longrightarrow> store_ready (store_all cs st)"
  by (induction cs arbitrary: st) (auto simp: store_ready_step)

lemma successes_Cons:
  "successes ((now, r) # cs) = (if rq_success r then 1 else 0) + successes cs"
  by (simp add: successes_def)

lemma successes_le: "successes cs \<le> int (length cs)"
  by (simp add: successes_def)

lemma successes_nonneg: "0 \<le> successes cs"
  by (simp add: successes_def)

lemma store_all_history:
  "store_ready st \<Longrightarrow> session_history (store_all cs st) =
           session_history st @ map (\<lambda>(now, r). problem_record now r) cs"
proof (induction cs arbitrary: st)
  case Nil
  show ?case by simp
next
  case (Cons c cs)
  obtain now r where c: "c = (now, r)" by (cases c)
  have r': "store_ready (snd (store_result now r st))"
    using Cons.prems by (rule store_ready_step)
  have "session_history (snd (store_result now r st)) = session_history st @ [problem_record now r]"
    by (simp add: store_result_ready[OF Cons.prems])
  with Cons.IH[OF r'] show ?case by (simp add: c)
qed

lemma store_all_total:
  "store_ready st \<Longrightarrow> total_problems (memory_status (store_all cs st)) =
           total_problems (memory_status st) + int (length cs)"
proof (induction cs arbitrary: st)
  case Nil
  show ?case by simp
next
  case (Cons c cs)
  obtain now r where c: "c = (now, r)" by (cases c)
  have r': "store_ready (snd (store_result now r st))"
    using Cons.prems by (rule store_ready_step)
  have "total_problems (memory_status (snd (store_result now r st))) =
        total_problems (memory_status st) + 1"
    by (simp add: store_result_ready[OF Cons.prems])
  with Cons.IH[OF r'] show ?case by (simp add: c)
qed

lemma store_all_success:
  "store_ready st \<Longrightarrow> success_count (memory_status (store_all cs st)) =
           success_count (memory_status st) + successes cs"
proof (induction cs arbitrary: st)
  case Nil
  show ?case by (simp add: successes_def)
next
  case (Cons c cs)
  obtain now r where c: "c = (now, r)" by (cases c)
  have r': "store_ready (snd (store_result now r st))"
    using Cons.prems by (rule store_ready_step)
  have "success_count (memory_status (snd (store_result now r st))) =
        success_count (memory_status st) + (if rq_success r then 1 else 0)"
    by (simp add: store_result_ready[OF Cons.prems])
  with Cons.IH[OF r'] show ?case by (simp add: c successes_Cons)
qed

lemma store_all_error:
  "store_ready st \<Longrightarrow> error_count (memory_status (store_all cs st)) =
           error_count (memory_status st) + (int (length cs) - successes cs)"
proof (induction cs arbitrary: st)
  case Nil
  show ?case by (simp add: successes_def)
next
  case (Cons c cs)
  obtain now r where c: "c = (now, r)" by (cases c)
  have r': "store_ready (snd (store_result now r st))"
    using Cons.prems by (rule store_ready_step)
  have "error_count (memory_status (snd (store_result now r st))) =
        error_count (memory_status st) + (if rq_success r then 0 else 1)"
    by (simp add: store_result_ready[OF Cons.prems])
  with Cons.IH[OF r'] show ?case by (simp add: c successes_Cons)
qed

lemma store_all_last:
  assumes "store_ready st" "cs \<noteq> []"
  shows "recent_history (memory_status (store_all cs st)) =
           py_slice_from (- 10) (session_history (store_all cs st))"
    and "success_rate (memory_status (store_all cs st)) =
           rate_text (success_count (memory_status (store_all cs st)))
             (total_problems (memory_status (store_all cs st)))"
proof -
  from assms(2) obtain cs' c where cs: "cs = cs' @ [c]" by (cases cs rule: rev_cases) auto
  obtain now r where c: "c = (now, r)" by (cases c)
  have r: "store_ready (store_all cs' st)" using assms(1) by (rule store_all_ready)
  show "recent_history (memory_status (store_all cs st)) =
           py_slice_from (- 10) (session_history (store_all cs st))"
    unfolding cs c store_all_append by (simp add: store_result_ready[OF r])
  show "success_rate (memory_status (store_all cs st)) =
           rate_text (success_count (memory_status (store_all cs st)))
             (total_problems (memory_status (store_all cs st)))"
    unfolding cs c store_all_append by (simp add: store_result_ready[OF r])
qed

lemma fresh_counts:
  "total_problems (memory_status (store_all calls init_store)) = int (length calls)"
  "success_count (memory_status (store_all calls init_store)) = successes calls"
  "error_count (memory_status (store_all calls init_store))
     = int (length calls) - successes calls"
  using store_all_total[OF store_ready_init, of calls]
    store_all_success[OF store_ready_init, of calls]
    store_all_error[OF store_ready_init, of calls]
  by (simp_all add: init_store_def MemoryStatus_default_def)

lemma fresh_success_rate:
  assumes "calls \<noteq> []"
  shows "success_rate (memory_status (store_all calls init_store))
           = rate_text (successes calls) (int (length calls))"
  using store_all_last(2)[OF store_ready_init assms] fresh_counts(1,2)[of calls] by simp

lemma rq_success_sample: "rq_success (sample_request ok) = ok"
  by (simp add: sample_request_def)

lemma enumerate_filter_snd:
  "length (filter (\<lambda>p. snd p) (enumerate n oks)) = length (filter (\<lambda>ok. ok) oks)"
  by (induction oks arbitrary: n) simp_all

lemma length_sample_calls: "length (sample_calls oks) = length oks"
  by (simp add: sample_calls_def)

lemma successes_sample_calls:
  "successes (sample_calls oks) = int (length (filter (\<lambda>ok. ok) oks))"
proof -
  have "filter (\<lambda>c. rq_success (snd c)) (map (\<lambda>(i, ok). (i, sample_request ok)) xs)
        = map (\<lambda>(i, ok). (i, sample_request ok)) (filter (\<lambda>p. snd p) xs)"
    for xs :: "(nat \<times> bool) list"
    by (induction xs) (auto simp add: rq_success_sample)
  then show ?thesis
    by (simp add: successes_def sample_calls_def enumerate_filter_snd)
qed

lemma sample_mix_counts:
  "length (sample_mix s f) = s + f" "successes (sample_mix s f) = int s"
  by (simp_all add: sample_mix_def length_sample_calls successes_sample_calls)

lemma store_result_inl:
  assumes "percent_1f (success_count (memory_status st) + (if rq_success r then 1 else 0))
             (total_problems (memory_status st) + 1) = Inl e"
  shows "store_result now r st =
     (Inl e,
      \<lparr> session_history = session_history st @ [problem_record now r],
        memory_status =
          (memory_status st)
            \<lparr> total_problems := total_problems (memory_status st) + 1,
              success_count := success_count (memory_status st) + (if rq_success r then 1 else 0),
              error_count := error_count (memory_status st) + (if rq_success r then 0 else 1) \<rparr> \<rparr>)"
proof (cases "rq_success r")
  case True
  with assms have "percent_1f (success_count (memory_status st) + 1)
             (total_problems (memory_status st) + 1) = Inl e" by simp
  then show ?thesis using True by (simp add: store_result_def Let_def)
next
  case False
  with assms have "percent_1f (success_count (memory_status st))
             (total_problems (memory_status st) + 1) = Inl e" by simp
  then show ?thesis using False by (simp add: store_result_def Let_def)
qed

lemma store_result_inr:
  assumes "percent_1f (success_count (memory_status st) + (if rq_success r then 1 else 0))
             (total_problems (memory_status st) + 1) = Inr rate"
    and "update_operation_stats (rq_problem r) (operation_stats (memory_status st)) = (None, s)"
  shows "snd (store_result now r st) =
      \<lparr> session_history = session_history st @ [problem_record now r],
        memory_status =
          (memory_status st)
            \<lparr> total_problems := total_problems (memory_status st) + 1,
              success_count := success_count (memory_status st) + (if rq_success r then 1 else 0),
              error_count := error_count (memory_status st) + (if rq_success r then 0 else 1),
              success_rate := rate, operation_stats := s,
              recent_history := py_slice_from (- 10) (session_history st @ [problem_record now r]) \<rparr> \<rparr>"
proof (cases "rq_success r")
  case True
  with assms have "percent_1f (success_count (memory_status st) + 1)
             (total_problems (memory_status st) + 1) = Inr rate" by simp
  then show ?thesis using True assms(2) by (simp add: store_result_def Let_def)
next
  case False
  with assms have "percent_1f (success_count (memory_status st))
             (total_problems (memory_status st) + 1) = Inr rate" by simp
  then show ?thesis using False assms(2) by (simp add: store_result_def Let_def)
qed

lemma store_inv_keys:
  assumes "store_inv st"
  obtains a b c d where "operation_stats (memory_status st) ''addition'' = Some a"
    "operation_stats (memory_status st) ''subtraction'' = Some b"
    "operation_stats (memory_status st) ''multiplication'' = Some c"
    "operation_stats (memory_status st) ''division'' = Some d"
proof -
  have "''addition'' \<in> dom (operation_stats (memory_status st))"
    "''subtraction'' \<in> dom (operation_stats (memory_status st))"
    "''multiplication'' \<in> dom (operation_stats (memory_status st))"
    "''division'' \<in> dom (operation_stats (memory_status st))"
    using assms by (simp_all add: store_inv_def)
  then show ?thesis using that by (auto simp only: dom_def mem_Collect_eq)
qed

lemma bump_stats_step: "s k = Some v \<Longrightarrow> bump_stats p s k = Some v \<or> bump_stats p s k = Some (v + 1)"
  by (simp add: bump_stats_def)

lemma store_result_inv:
  assumes "store_inv st"
  shows "store_inv (snd (store_result now r st))"
    and "operation_stats (memory_status st) k = Some v \<Longrightarrow>
           operation_stats (memory_status (snd (store_result now r st))) k = Some v \<or>
           operation_stats (memory_status (snd (store_result now r st))) k = Some (v + 1)"
    and "total_problems (memory_status (snd (store_result now r st)))
           = total_problems (memory_status st) + 1"
    and "success_count (memory_status (snd (store_result now r st)))
           = success_count (memory_status st) + (if rq_success r then 1 else 0)"
    and "error_count (memory_status (snd (store_result now r st)))
           = error_count (memory_status st) + (if rq_success r then 0 else 1)"
proof -
  let ?m = "memory_status st"
  let ?p = "percent_1f (success_count ?m + (if rq_success r then 1 else 0)) (total_problems ?m + 1)"
  from store_inv_keys[OF assms] obtain a b c d where keys:
    "operation_stats ?m ''addition'' = Some a" "operation_stats ?m ''subtraction'' = Some b"
    "operation_stats ?m ''multiplication'' = Some c" "operation_stats ?m ''division'' = Some d"
    by blast
  note u = update_operation_stats_present[OF keys, of "rq_problem r"]
  have inv: "success_count ?m + error_count ?m = total_problems ?m"
    "dom (operation_stats ?m) = {''addition'', ''subtraction'', ''multiplication'', ''division''}"
    using assms by (simp_all add: store_inv_def)
  consider e where "?p = Inl e" | rate where "?p = Inr rate" by (cases ?p) auto
  then have "store_inv (snd (store_result now r st)) \<and>
    (operation_stats ?m k = Some v \<longrightarrow>
           operation_stats (memory_status (snd (store_result now r st))) k = Some v \<or>
           operation_stats (memory_status (snd (store_result now r st))) k = Some (v + 1)) \<and>
    total_problems (memory_status (snd (store_result now r st))) = total_problems ?m + 1 \<and>
    success_count (memory_status (snd (store_result now r st)))
           = success_count ?m + (if rq_success r then 1 else 0) \<and>
    error_count (memory_status (snd (store_result now r st)))
           = error_count ?m + (if rq_success r then 0 else 1)"
  proof cases
    case 1
    show ?thesis
      unfolding store_result_inl[OF 1] using inv by (simp add: store_inv_def)
  next
    case 2
    show ?thesis
      unfolding store_result_inr[OF 2 u] using inv bump_stats_step[of "operation_stats ?m" k v]
      by (auto simp add: store_inv_def dom_bump_stats)
  qed
  then show "store_inv (snd (store_result now r st))"
    and "operation_stats (memory_status st) k = Some v \<Longrightarrow>
           operation_stats (memory_status (snd (store_result now r st))) k = Some v \<or>
           operation_stats (memory_status (snd (store_result now r st))) k = Some (v + 1)"
    and "total_problems (memory_status (snd (store_result now r st)))
           = total_problems (memory_status st) + 1"
    and "success_count (memory_status (snd (store_result now r st)))
           = success_count (memory_status st) + (if rq_success r then 1 else 0)"
    and "error_count (memory_status (snd (store_result now r st)))
           = error_count (memory_status st) + (if rq_success r then 0 else 1)"
    by simp_all
qed

lemma get_memory_summary_state: "snd (get_memory_summary st) = st"
  by (simp add: get_memory_summary_def Let_def split: sum.split list.split option.split)

lemma get_recent_history_state: "snd (get_recent_history args st) = st"
  by (simp add: get_recent_history_def Let_def split: sum.split)

lemma last_five: "py_slice_from (- 5) h = rev (take 5 (rev h))"
  using py_slice_from_neg[of 5 h] by (simp add: take_rev)

lemma has_sample: "has_add ''3 + 4x5''" "has_mul ''3 + 4x5''" "\<not> has_sub ''3 + 4x5''"
  "\<not> has_div ''3 + 4x5''"
  by (simp_all add: has_add_def has_mul_def has_sub_def has_div_def py_lower_def
      py_lower_char_def)




section \<open>Floating point: how close the percentage is\<close>

lemma round_half_even_near: "\<bar>of_int (round_half_even x) - x\<bar> \<le> 1 / 2"
proof -
  have "of_int \<lfloor>x\<rfloor> \<le> x" "x < of_int \<lfloor>x\<rfloor> + 1" by linarith+
  then show ?thesis
    by (auto simp: round_half_even_def Let_def abs_le_iff)
qed

lemma round_half_even_nonneg: "0 \<le> x \<Longrightarrow> 0 \<le> round_half_even x"
  by (auto simp: round_half_even_def Let_def)

lemma pow2_half: "pow2 (e - 52) / 2 = pow2 (e - 53)"
proof -
  have "pow2 (e - 53 + 1) = pow2 (e - 53) * pow2 1" by (rule pow2_add)
  then show ?thesis by (simp add: pow2_def[of 1])
qed

lemma round_rat_pos:
  assumes "0 < q"
  shows "round_rat q =
         of_int (round_half_even (q / pow2 (max (ilog2 q) (- 1022) - 52)))
           * pow2 (max (ilog2 q) (- 1022) - 52)"
  using assms by (simp add: round_rat_def Let_def)

lemma round_rat_near:
  assumes "0 < q"
  shows "\<bar>round_rat q - q\<bar> \<le> pow2 (max (ilog2 q) (- 1022) - 53)"
proof -
  define ulp where "ulp = pow2 (max (ilog2 q) (- 1022) - 52)"
  have u: "0 < ulp" unfolding ulp_def by (rule pow2_pos)
  have "\<bar>of_int (round_half_even (q / ulp)) - q / ulp\<bar> \<le> 1 / 2"
    by (rule round_half_even_near)
  then have "\<bar>of_int (round_half_even (q / ulp)) - q / ulp\<bar> * ulp \<le> 1 / 2 * ulp"
    using u by (simp add: mult_right_mono)
  moreover have "\<bar>of_int (round_half_even (q / ulp)) - q / ulp\<bar> * ulp
                 = \<bar>of_int (round_half_even (q / ulp)) * ulp - q\<bar>"
  proof -
    have "\<bar>of_int (round_half_even (q / ulp)) - q / ulp\<bar> * ulp
          = \<bar>(of_int (round_half_even (q / ulp)) - q / ulp) * ulp\<bar>"
      using u by (simp add: abs_mult)
    also have "(of_int (round_half_even (q / ulp)) - q / ulp) * ulp
               = of_int (round_half_even (q / ulp)) * ulp - q"
      using u by (simp add: field_simps)
    finally show ?thesis .
  qed
  ultimately have "\<bar>of_int (round_half_even (q / ulp)) * ulp - q\<bar> \<le> ulp / 2" by simp
  then show ?thesis
    unfolding round_rat_pos[OF assms] ulp_def pow2_half .
qed

lemma round_rat_rel:
  assumes "pow2 (- 1022) \<le> q"
  shows "\<bar>round_rat q - q\<bar> \<le> q / 2 ^ 53"
proof -
  have q: "0 < q" using assms pow2_pos[of "- 1022"] by linarith
  have "pow2 (- 1022) < pow2 (ilog2 q + 1)" using ilog2_bounds[OF q] assms by linarith
  then have "- 1022 < ilog2 q + 1"
    using pow2_mono[of "ilog2 q + 1" "- 1022"] by (cases "- 1022 < ilog2 q + 1") auto
  then have m: "max (ilog2 q) (- 1022) = ilog2 q" by simp
  have "pow2 (ilog2 q - 53) = pow2 (ilog2 q) * pow2 (- 53)"
    using pow2_add[of "ilog2 q" "- 53"] by simp
  also have "\<dots> \<le> q * pow2 (- 53)"
    using ilog2_bounds[OF q] pow2_pos[of "- 53"] by (simp add: mult_right_mono)
  also have "\<dots> = q / 2 ^ 53" by (simp add: pow2_def)
  finally show ?thesis using round_rat_near[OF q] m by simp
qed

lemma format_1f_nonneg:
  assumes "0 \<le> x"
  shows "format_1f (Fin x) =
         show_nat (nat (round_half_even (x * 10)) div 10) @ ''.'' @
         show_nat (nat (round_half_even (x * 10)) mod 10)"
  using assms by (simp add: format_1f_def Let_def)

lemma rate_text_zero: "rate_text 0 N = show_nat (0 div 10) @ ''.'' @ show_nat (0 mod 10) @ ''%''"
  by (simp add: rate_text_def round_double_def dbl_overflows_def round_rat_def float_times_def
      format_1f_def round_half_even_def Let_def)

lemma rate_text_accuracy_pos:
  fixes S N :: int
  assumes N: "1 \<le> N" "N \<le> 2 ^ 40" and S: "1 \<le> S" "S \<le> N"
  shows "\<exists>k::nat. rate_text S N = show_nat (k div 10) @ ''.'' @ show_nat (k mod 10) @ ''%'' \<and>
           \<bar>(of_nat k :: rat) / 10 - 100 * of_int S / of_int N\<bar> \<le> 1 / 20"
proof -
  define n :: rat where "n = of_int N"
  define q :: rat where "q = of_int S / of_int N"
  define y where "y = round_rat q"
  define x where "x = round_rat (y * 100)"
  define K where "K = round_half_even (x * 10)"
  have n1: "1 \<le> n" "n \<le> 2 ^ 40" unfolding n_def using N
    by (simp, metis of_int_le_iff of_int_numeral of_int_power)
  have npos: "0 < n" using n1 by simp
  have q_le: "q \<le> 1" unfolding q_def using S N by simp
  have q_ge: "1 / 2 ^ 40 \<le> q"
  proof -
    have "1 / 2 ^ 40 \<le> 1 / n" using n1 npos by (simp add: frac_le)
    also have "\<dots> \<le> of_int S / n" using S npos by (simp add: divide_right_mono)
    finally show ?thesis by (simp add: q_def n_def)
  qed
  have qpos: "0 < q" using q_ge by (simp add: less_le_trans[of 0 "1 / 2 ^ 40"])
  have "pow2 (- 1022) \<le> 1 / 2 ^ 40" by (simp add: pow2_def)
  then have qn: "pow2 (- 1022) \<le> q" using q_ge by linarith
  have yq: "\<bar>y - q\<bar> \<le> q / 2 ^ 53" unfolding y_def by (rule round_rat_rel[OF qn])
  have "q / 2 ^ 53 \<le> q / 2" using qpos by simp
  with yq have yb: "\<bar>y - q\<bar> \<le> q / 2" by linarith
  have y_lo: "q / 2 \<le> y" and y_hi: "y \<le> 2 * q" and ypos: "0 < y"
    using yb qpos by linarith+
  have "pow2 (- 1022) \<le> 1 / 2 ^ 41" by (simp add: pow2_def)
  also have "\<dots> \<le> y * 100" using y_lo q_ge by (simp add: field_simps)
  finally have yn: "pow2 (- 1022) \<le> y * 100" .
  have xy: "\<bar>x - y * 100\<bar> \<le> y * 100 / 2 ^ 53" unfolding x_def by (rule round_rat_rel[OF yn])
  have "y * 100 / 2 ^ 53 \<le> y * 100 / 2" using ypos by simp
  with xy have "\<bar>x - y * 100\<bar> \<le> y * 100 / 2" by linarith
  then have xpos: "0 < x" using ypos by linarith
  have xq: "\<bar>x - 100 * q\<bar> \<le> 300 / 2 ^ 53"
  proof -
    have "x - 100 * q = (x - y * 100) + 100 * (y - q)" by simp
    then have "\<bar>x - 100 * q\<bar> \<le> \<bar>x - y * 100\<bar> + \<bar>100 * (y - q)\<bar>"
      by (simp only: abs_triangle_ineq)
    also have "\<dots> = \<bar>x - y * 100\<bar> + 100 * \<bar>y - q\<bar>"
      by (simp only: abs_mult abs_numeral)
    finally have "\<bar>x - 100 * q\<bar> \<le> \<bar>x - y * 100\<bar> + 100 * \<bar>y - q\<bar>" .
    also have "\<dots> \<le> y * 100 / 2 ^ 53 + 100 * (q / 2 ^ 53)"
    proof (rule add_mono[OF xy])
      show "100 * \<bar>y - q\<bar> \<le> 100 * (q / 2 ^ 53)" using yq by simp
    qed
    also have "\<dots> \<le> 300 * q / 2 ^ 53" using y_hi by (simp add: field_simps)
    also have "\<dots> \<le> 300 / 2 ^ 53" using q_le by (simp add: field_simps)
    finally show ?thesis .
  qed
  have Kx: "\<bar>of_int K - x * 10\<bar> \<le> 1 / 2" unfolding K_def by (rule round_half_even_near)
  have K0: "0 \<le> K" unfolding K_def using xpos by (simp add: round_half_even_nonneg)
  have Kq: "\<bar>of_int K - 1000 * q\<bar> \<le> 1 / 2 + 3000 / 2 ^ 53"
  proof -
    have "of_int K - 1000 * q = (of_int K - x * 10) + 10 * (x - 100 * q)" by simp
    then have "\<bar>of_int K - 1000 * q\<bar> \<le> \<bar>of_int K - x * 10\<bar> + \<bar>10 * (x - 100 * q)\<bar>"
      by (simp only: abs_triangle_ineq)
    also have "\<dots> = \<bar>of_int K - x * 10\<bar> + 10 * \<bar>x - 100 * q\<bar>"
      by (simp only: abs_mult abs_numeral)
    also have "\<dots> \<le> 1 / 2 + 10 * (300 / 2 ^ 53)"
    proof (rule add_mono[OF Kx])
      show "10 * \<bar>x - 100 * q\<bar> \<le> 10 * (300 / 2 ^ 53)" using xq by simp
    qed
    finally show ?thesis by simp
  qed
  define j where "j = K * N - 1000 * S"
  have jn: "of_int j = (of_int K - 1000 * q) * n"
    using npos by (simp add: j_def q_def n_def field_simps)
  have "\<bar>of_int j :: rat\<bar> = \<bar>of_int K - 1000 * q\<bar> * n"
    using npos by (simp add: jn abs_mult)
  also have "\<dots> \<le> (1 / 2 + 3000 / 2 ^ 53) * n" using Kq npos by (simp add: mult_right_mono)
  also have "\<dots> = n / 2 + 3000 * n / 2 ^ 53" by (simp add: field_simps)
  also have "\<dots> < n / 2 + 1 / 2" using n1 by simp
  finally have "2 * \<bar>of_int j :: rat\<bar> < of_int (N + 1)" by (simp add: n_def)
  then have "(of_int (2 * \<bar>j\<bar>) :: rat) < of_int (N + 1)" by simp
  then have "2 * \<bar>j\<bar> < N + 1" by (simp only: of_int_less_iff)
  then have "2 * \<bar>j\<bar> \<le> N" by simp
  then have "(of_int (2 * \<bar>j\<bar>) :: rat) \<le> of_int N" by (simp only: of_int_le_iff)
  then have "\<bar>of_int j :: rat\<bar> \<le> n / 2" by (simp add: n_def)
  then have "\<bar>of_int K - 1000 * q\<bar> * n \<le> 1 / 2 * n"
    using npos by (simp add: jn abs_mult)
  then have "\<bar>of_int K - 1000 * q\<bar> \<le> 1 / 2" using npos by (simp only: mult_le_cancel_right_pos)
  then have acc: "\<bar>of_int K / 10 - 100 * q\<bar> \<le> 1 / 20" by (simp add: abs_le_iff field_simps)
  have nov1: "\<not> dbl_overflows q" using q_le qpos by (simp add: not_overflow_unit)
  have rd1: "round_double q = Fin y"
    using nov1 qpos by (simp add: round_double_def y_def)
  have "\<bar>y * 100\<bar> \<le> 200" using y_hi q_le ypos by simp
  then have nov2: "\<not> dbl_overflows (y * 100)" by (simp add: dbl_overflows_def)
  have ft: "float_times (Fin y) (Fin 100) = Fin x"
    using ypos nov2 by (simp add: float_times_def round_double_def x_def)
  have "rate_text S N = format_1f (Fin x) @ ''%''"
    by (simp add: rate_text_def rd1[unfolded q_def] ft)
  also have "\<dots> = show_nat (nat K div 10) @ ''.'' @ show_nat (nat K mod 10) @ ''%''"
    using xpos by (simp add: format_1f_nonneg K_def)
  finally have r: "rate_text S N
                   = show_nat (nat K div 10) @ ''.'' @ show_nat (nat K mod 10) @ ''%''" .
  have "(of_nat (nat K) :: rat) = of_int K" using K0 by simp
  with acc have "\<bar>(of_nat (nat K) :: rat) / 10 - 100 * of_int S / of_int N\<bar> \<le> 1 / 20"
    by (simp add: q_def)
  with r show ?thesis by blast
qed

lemma percent_1f_accuracy:
  fixes S N :: int
  assumes "1 \<le> N" "N \<le> 2 ^ 40" "0 \<le> S" "S \<le> N"
  shows "\<exists>k::nat. percent_1f S N
             = Inr (show_nat (k div 10) @ ''.'' @ show_nat (k mod 10) @ ''%'') \<and>
           \<bar>(of_nat k :: rat) / 10 - 100 * of_int S / of_int N\<bar> \<le> 1 / 20"
proof -
  have p: "percent_1f S N = Inr (rate_text S N)"
    unfolding rate_text_def using assms by (intro percent_1f_ratio) simp_all
  show ?thesis
  proof (cases "S = 0")
    case True
    show ?thesis
      using p True by (intro exI[of _ 0]) (simp add: rate_text_zero)
  next
    case False
    then have "1 \<le> S" using assms(3) by simp
    from rate_text_accuracy_pos[OF assms(1,2) this assms(4)] show ?thesis
      unfolding p by simp
  qed
qed

text \<open>
  Away from the halves the nearest tenth is unique, so the text is the rounded quotient,
  whatever the rule for the halves.
\<close>

lemma nearest_int_unique:
  assumes "\<bar>of_int K - x\<bar> \<le> 1 / 2" "x - of_int \<lfloor>x\<rfloor> \<noteq> 1 / 2"
  shows "K = round_half_even x"
proof -
  have f: "of_int \<lfloor>x\<rfloor> \<le> x" "x < of_int \<lfloor>x\<rfloor> + 1" by linarith+
  have u: "of_int K \<le> x + 1 / 2" and l: "x - 1 / 2 \<le> of_int K"
    using assms(1) by linarith+
  show ?thesis
  proof (cases "x - of_int \<lfloor>x\<rfloor> < 1 / 2")
    case True
    have "of_int K < (of_int \<lfloor>x\<rfloor> :: rat) + 1" using u True by linarith
    then have "of_int K < (of_int (\<lfloor>x\<rfloor> + 1) :: rat)" by simp
    then have 1: "K < \<lfloor>x\<rfloor> + 1" by (simp only: of_int_less_iff)
    have "(of_int \<lfloor>x\<rfloor> :: rat) - 1 < of_int K" using l f by linarith
    then have "(of_int (\<lfloor>x\<rfloor> - 1) :: rat) < of_int K" by simp
    then have 2: "\<lfloor>x\<rfloor> - 1 < K" by (simp only: of_int_less_iff)
    from 1 2 have "K = \<lfloor>x\<rfloor>" by simp
    then show ?thesis using True by (simp add: round_half_even_def Let_def)
  next
    case False
    with assms(2) have h: "1 / 2 < x - of_int \<lfloor>x\<rfloor>" by simp
    have "of_int K < (of_int \<lfloor>x\<rfloor> :: rat) + 2" using u f by linarith
    then have "of_int K < (of_int (\<lfloor>x\<rfloor> + 2) :: rat)" by simp
    then have 1: "K < \<lfloor>x\<rfloor> + 2" by (simp only: of_int_less_iff)
    have "(of_int \<lfloor>x\<rfloor> :: rat) < of_int K" using l h by linarith
    then have 2: "\<lfloor>x\<rfloor> < K" by (simp only: of_int_less_iff)
    from 1 2 have "K = \<lfloor>x\<rfloor> + 1" by simp
    then show ?thesis using h by (simp add: round_half_even_def Let_def)
  qed
qed

lemma round_half_up_near: "\<bar>of_int (round_half_up x) - x\<bar> \<le> 1 / 2"
  unfolding round_half_up_def by linarith

lemma round_half_down_near: "\<bar>of_int (round_half_down x) - x\<bar> \<le> 1 / 2"
  unfolding round_half_down_def by linarith

lemma spec_success_rate_agree:
  assumes "\<not> halfway S N"
  shows "spec_success_rate round_half_up S N = spec_success_rate round_half_even S N"
    and "spec_success_rate round_half_down S N = spec_success_rate round_half_even S N"
proof -
  let ?x = "1000 * of_int S / of_int N :: rat"
  have h: "?x - of_int \<lfloor>?x\<rfloor> \<noteq> 1 / 2" using assms by (simp add: halfway_def)
  have "round_half_up ?x = round_half_even ?x"
    by (rule nearest_int_unique[OF round_half_up_near h])
  then show "spec_success_rate round_half_up S N = spec_success_rate round_half_even S N"
    by (simp add: spec_success_rate_def)
  have "round_half_down ?x = round_half_even ?x"
    by (rule nearest_int_unique[OF round_half_down_near h])
  then show "spec_success_rate round_half_down S N = spec_success_rate round_half_even S N"
    by (simp add: spec_success_rate_def)
qed

lemma percent_1f_exact:
  fixes S N :: int
  assumes "1 \<le> N" "N \<le> 2 ^ 40" "0 \<le> S" "S \<le> N" "\<not> halfway S N"
  shows "percent_1f S N = Inr (spec_success_rate round_half_even S N)"
proof -
  from percent_1f_accuracy[OF assms(1-4)] obtain k :: nat where
    k: "percent_1f S N = Inr (show_nat (k div 10) @ ''.'' @ show_nat (k mod 10) @ ''%'')"
    and a: "\<bar>(of_nat k :: rat) / 10 - 100 * of_int S / of_int N\<bar> \<le> 1 / 20"
    by blast
  have h: "1000 * of_int S / of_int N - of_int \<lfloor>1000 * of_int S / of_int N :: rat\<rfloor>
             \<noteq> (1 / 2 :: rat)"
    using assms(5) by (simp add: halfway_def)
  have "(of_nat k :: rat) - 1000 * of_int S / of_int N
        = 10 * (of_nat k / 10 - 100 * of_int S / of_int N)" by simp
  then have "\<bar>(of_nat k :: rat) - 1000 * of_int S / of_int N\<bar>
        = 10 * \<bar>of_nat k / 10 - 100 * of_int S / of_int N\<bar>"
    by (simp only: abs_mult abs_numeral)
  with a have "\<bar>(of_int (int k) :: rat) - 1000 * of_int S / of_int N\<bar> \<le> 1 / 2" by simp
  from nearest_int_unique[OF this h]
  have "k = nat (round_half_even (1000 * of_int S / of_int N))" by simp
  then show ?thesis unfolding k by (simp add: spec_success_rate_def Let_def)
qed

section \<open>The stages: logs and the short circuit\<close>


lemma memory_consult_log:
  "snd (memory_consult lib orc i lg) = lg @ [MemoryPrompt i]"
  by (simp add: memory_consult_def Let_def split: reply.split sum.split json.split)

lemma decision_decide_log:
  "snd (decision_decide lib orc i lg) = lg @ [DecisionPrompt i]"
  by (simp add: decision_decide_def Let_def split: reply.split sum.split json.split)


lemma perception_analyze_failed:
  assumes "orc (length lg) (PerceptionPrompt expr) = Raises m \<or>
           (\<exists>t err. orc (length lg) (PerceptionPrompt expr) = Text t \<and>
                      parse_llm_response lib t = Inl err)"
  shows "\<exists>msg. perception_analyze lib orc expr lg =
           (perception_error_response expr msg, lg @ [PerceptionPrompt expr])"
  using assms by (auto simp: perception_analyze_def Let_def)

lemma analyze_short_circuit:
  assumes "perception_analyze lib orc expr lg = (p, lg1)" "\<not> is_valid p"
  shows "analyze lib orc now expr summary_text lg =
           (create_error_result now expr (Some p) ''perception_error'', lg1)"
  using assms by (simp add: analyze_def)

section \<open>The coercion of the action stage as a map\<close>

lemma py_str_of_str: "is_str v \<Longrightarrow> JStr (py_str lib v) = v"
  by (cases v) (simp_all add: py_str_def)

lemma fix_result_map:
  "map_of (case map_of d ''result'' of
             None \<Rightarrow> d
           | Some v \<Rightarrow>
               if is_int_or_float v then AList.update ''result'' (JStr (py_str lib v)) d
               else if \<not> is_str v then AList.update ''result'' (JStr (py_str lib v)) d
               else d)
   = (\<lambda>k. if k = ''result'' then map_option (\<lambda>v. JStr (py_str lib v)) (map_of d k)
           else map_of d k)"
proof (cases "map_of d ''result''")
  case None
  then show ?thesis by (simp add: fun_eq_iff)
next
  case (Some v)
  show ?thesis
  proof (cases "is_int_or_float v \<or> \<not> is_str v")
    case True
    then show ?thesis using Some by (auto simp: fun_eq_iff update_conv')
  next
    case False
    then have "JStr (py_str lib v) = v" by (simp add: py_str_of_str)
    then show ?thesis using Some False by (simp add: fun_eq_iff)
  qed
qed

lemma fix_steps_map:
  "map_of (case map_of d ''steps'' of
             None \<Rightarrow> d
           | Some v \<Rightarrow>
               (case v of
                  JList xs \<Rightarrow>
                    AList.update ''steps'' (JList (map (\<lambda>step. JStr (py_str lib step)) xs)) d
                | _ \<Rightarrow> AList.update ''steps'' (JList [JStr (py_str lib v)]) d))
   = (\<lambda>k. if k = ''steps'' then map_option (fixed_steps lib) (map_of d k) else map_of d k)"
proof (cases "map_of d ''steps''")
  case None
  then show ?thesis by (simp add: fun_eq_iff)
next
  case (Some v)
  then show ?thesis
    by (cases v) (simp_all add: fun_eq_iff update_conv' fixed_steps_def)
qed

lemma fix_str_field_map:
  "map_of (fix_str_field lib field d)
   = (\<lambda>k. if k = field then map_option (\<lambda>v. JStr (py_str lib v)) (map_of d k)
           else map_of d k)"
proof (cases "map_of d field")
  case None
  then show ?thesis by (simp add: fix_str_field_def fun_eq_iff)
next
  case (Some v)
  show ?thesis
  proof (cases "is_str v")
    case True
    then have "JStr (py_str lib v) = v" by (rule py_str_of_str)
    then show ?thesis using Some True by (simp add: fix_str_field_def fun_eq_iff)
  next
    case False
    then show ?thesis using Some by (simp add: fix_str_field_def fun_eq_iff update_conv')
  qed
qed

lemma fix_confidence_map:
  assumes "(case map_of d ''confidence'' of
                 None \<Rightarrow> Inr d
               | Some v \<Rightarrow>
                   (case py_float lib v of
                      Inr c \<Rightarrow>
                        Inr (AList.update ''confidence''
                               (JFloat (py_max (Fin 0) (py_min (Fin 1) c))) d)
                    | Inl (ValueError m) \<Rightarrow>
                        Inr (AList.update ''confidence'' (JFloat (Fin (1 / 2))) d)
                    | Inl TypeError \<Rightarrow>
                        Inr (AList.update ''confidence'' (JFloat (Fin (1 / 2))) d)
                    | Inl e \<Rightarrow> Inl e)) = Inr d3"
  shows "map_of d3 = (\<lambda>k. if k = ''confidence'' then map_option (clamped lib) (map_of d k)
                           else map_of d k)"
proof (cases "map_of d ''confidence''")
  case None
  then show ?thesis using assms by (auto simp: fun_eq_iff)
next
  case (Some v)
  show ?thesis
  proof (cases "py_float lib v")
    case (Inr c)
    then show ?thesis using assms Some by (auto simp: fun_eq_iff update_conv' clamped_def)
  next
    case (Inl e)
    then show ?thesis using assms Some
      by (cases e) (auto simp: fun_eq_iff update_conv' clamped_def)
  qed
qed

lemma clamp_unit: "\<exists>q. py_max (Fin 0) (py_min (Fin 1) c) = Fin q \<and> 0 \<le> q \<and> q \<le> 1"
  by (cases c) (simp_all add: py_max_def py_min_def fl_less_def)

lemma clamped_unit: "\<exists>q. clamped lib v = JFloat (Fin q) \<and> 0 \<le> q \<and> q \<le> 1"
proof (cases "py_float lib v")
  case (Inl e)
  then show ?thesis by (intro exI[of _ "1 / 2"]) (simp add: clamped_def)
next
  case (Inr c)
  then show ?thesis using clamp_unit[of c] by (simp add: clamped_def)
qed

lemma validate_and_fix_result_map:
  assumes "validate_and_fix_result lib d = Inr d'"
  shows "map_of d' =
     (\<lambda>k. if k = ''result'' \<or> k = ''verification'' \<or> k = ''execution_notes''
             then map_option (\<lambda>v. JStr (py_str lib v)) (map_of d k)
           else if k = ''steps'' then map_option (fixed_steps lib) (map_of d k)
           else if k = ''confidence'' then map_option (clamped lib) (map_of d k)
           else map_of d k)"
proof -
  define d1 where "d1 = (case map_of d ''result'' of
             None \<Rightarrow> d
           | Some v \<Rightarrow>
               if is_int_or_float v then AList.update ''result'' (JStr (py_str lib v)) d
               else if \<not> is_str v then AList.update ''result'' (JStr (py_str lib v)) d
               else d)"
  define d2 where "d2 = (case map_of d1 ''steps'' of
             None \<Rightarrow> d1
           | Some v \<Rightarrow>
               (case v of
                  JList xs \<Rightarrow>
                    AList.update ''steps'' (JList (map (\<lambda>step. JStr (py_str lib step)) xs)) d1
                | _ \<Rightarrow> AList.update ''steps'' (JList [JStr (py_str lib v)]) d1))"
  define c where "c = (case map_of d2 ''confidence'' of
                 None \<Rightarrow> Inr d2
               | Some v \<Rightarrow>
                   (case py_float lib v of
                      Inr c \<Rightarrow>
                        Inr (AList.update ''confidence''
                               (JFloat (py_max (Fin 0) (py_min (Fin 1) c))) d2)
                    | Inl (ValueError m) \<Rightarrow>
                        Inr (AList.update ''confidence'' (JFloat (Fin (1 / 2))) d2)
                    | Inl TypeError \<Rightarrow>
                        Inr (AList.update ''confidence'' (JFloat (Fin (1 / 2))) d2)
                    | Inl e \<Rightarrow> Inl e))"
  have v: "validate_and_fix_result lib d =
           (case c of Inl e \<Rightarrow> Inl e
            | Inr d3 \<Rightarrow> Inr (fix_str_field lib ''execution_notes''
                              (fix_str_field lib ''verification'' d3)))"
    unfolding validate_and_fix_result_def Let_def d1_def d2_def c_def ..
  from assms v obtain d3 where d3: "c = Inr d3"
    and d': "d' = fix_str_field lib ''execution_notes'' (fix_str_field lib ''verification'' d3)"
    by (cases c) auto
  have m1: "map_of d1 = (\<lambda>k. if k = ''result'' then map_option (\<lambda>v. JStr (py_str lib v)) (map_of d k)
           else map_of d k)"
    unfolding d1_def by (rule fix_result_map)
  have m2: "map_of d2 = (\<lambda>k. if k = ''steps'' then map_option (fixed_steps lib) (map_of d1 k)
           else map_of d1 k)"
    unfolding d2_def by (rule fix_steps_map)
  have m3: "map_of d3 = (\<lambda>k. if k = ''confidence'' then map_option (clamped lib) (map_of d2 k)
                           else map_of d2 k)"
    using d3 unfolding c_def by (rule fix_confidence_map)
  show ?thesis
    unfolding d' fix_str_field_map m3 m2 m1 by (simp add: fun_eq_iff)
qed

section \<open>Floating point: percentages worked out\<close>

lemma ilog2_half: "ilog2 (1 / 2) = - 1"
  by (rule ilog2_eqI) (simp_all add: pow2_def)

lemma round_rat_half: "round_rat (1 / 2) = 1 / 2"
  by (simp add: round_rat_def ilog2_half pow2_def round_half_even_def Let_def)

lemma ilog2_50: "ilog2 50 = 5"
  by (rule ilog2_eqI) (simp_all add: pow2_def)

lemma round_rat_50: "round_rat 50 = 50"
  by (simp add: round_rat_def ilog2_50 pow2_def round_half_even_def Let_def)

lemma percent_1f_half: "percent_1f 1 2 = Inr ''50.0%''"
  by (simp add: percent_1f_def py_true_div_def dbl_overflows_def round_double_def
      round_rat_half round_rat_50 float_times_def format_1f_def round_half_even_def Let_def)

lemma ilog2_two_thirds: "ilog2 (2 / 3) = - 1"
  by (rule ilog2_eqI) (simp_all add: pow2_def)

lemma round_rat_two_thirds: "round_rat (2 / 3) = 6004799503160661 / 9007199254740992"
  by (simp add: round_rat_def ilog2_two_thirds pow2_def round_half_even_def Let_def
      floor_numeral_div)

lemma ilog2_66: "ilog2 (150119987579016525 / 2251799813685248) = 6"
  by (rule ilog2_eqI) (simp_all add: pow2_def)

lemma round_rat_66:
  "round_rat (150119987579016525 / 2251799813685248) = 2345624805922133 / 35184372088832"
  by (simp add: round_rat_def ilog2_66 pow2_def round_half_even_def Let_def floor_numeral_div)

lemma percent_1f_two_thirds: "percent_1f 2 3 = Inr ''66.7%''"
  by (simp add: percent_1f_def py_true_div_def dbl_overflows_def round_double_def
      round_rat_two_thirds round_rat_66 float_times_def format_1f_def round_half_even_def
      Let_def floor_numeral_div)

text \<open>
  At an exact tie the text is one of the two nearest tenths, whichever side the double fell
  on: three successes in 2000 records are 0.15 percent and print as \<^verbatim>\<open>0.1%\<close>.
\<close>

lemma ilog2_tie: "ilog2 (3 / 2000) = - 10"
  by (rule ilog2_eqI) (simp_all add: pow2_def)

lemma round_rat_tie: "round_rat (3 / 2000) = 3458764513820541 / 2305843009213693952"
  by (simp add: round_rat_def ilog2_tie pow2_def round_half_even_def Let_def floor_numeral_div)

lemma ilog2_tie_100: "ilog2 (86469112845513525 / 576460752303423488) = - 3"
  by (rule ilog2_eqI) (simp_all add: pow2_def)

lemma round_rat_tie_100:
  "round_rat (86469112845513525 / 576460752303423488)
   = 5404319552844595 / 36028797018963968"
  by (simp add: round_rat_def ilog2_tie_100 pow2_def round_half_even_def Let_def
      floor_numeral_div)

lemma percent_1f_tie: "percent_1f 3 2000 = Inr ''0.1%''"
  by (simp add: percent_1f_def py_true_div_def dbl_overflows_def round_double_def
      round_rat_tie round_rat_tie_100 float_times_def format_1f_def round_half_even_def
      Let_def floor_numeral_div)

text \<open>
  Two more ties, of which the doubles fall on opposite sides. 23 successes in 80 records
  are 28.75 percent: \<^verbatim>\<open>23 / 80\<close> is rounded down to a double, the product by 100 is
  \<^verbatim>\<open>28.749999999999996\<close> and prints as \<^verbatim>\<open>28.7%\<close>. 49 successes in 80 records are 61.25
  percent: the product is \<^verbatim>\<open>61.25000000000001\<close> and prints as \<^verbatim>\<open>61.3%\<close>.
\<close>

lemma ilog2_23_80: "ilog2 (23 / 80) = - 2"
  by (rule ilog2_eqI) (simp_all add: pow2_def)

lemma round_rat_23_80: "round_rat (23 / 80) = 2589569785738035 / 9007199254740992"
  by (simp add: round_rat_def ilog2_23_80 pow2_def round_half_even_def Let_def floor_numeral_div)

lemma ilog2_23_80_100: "ilog2 (64739244643450875 / 2251799813685248) = 4"
  by (rule ilog2_eqI) (simp_all add: pow2_def)

lemma round_rat_23_80_100:
  "round_rat (64739244643450875 / 2251799813685248) = 8092405580431359 / 281474976710656"
  by (simp add: round_rat_def ilog2_23_80_100 pow2_def round_half_even_def Let_def
      floor_numeral_div)

lemma rate_text_23_80: "rate_text 23 80 = ''28.7%''"
  by (simp add: rate_text_def dbl_overflows_def round_double_def
      round_rat_23_80 round_rat_23_80_100 float_times_def format_1f_def round_half_even_def
      Let_def floor_numeral_div)

lemma ilog2_49_80: "ilog2 (49 / 80) = - 1"
  by (rule ilog2_eqI) (simp_all add: pow2_def)

lemma round_rat_49_80: "round_rat (49 / 80) = 2758454771764429 / 4503599627370496"
  by (simp add: round_rat_def ilog2_49_80 pow2_def round_half_even_def Let_def floor_numeral_div)

lemma ilog2_49_80_100: "ilog2 (68961369294110725 / 1125899906842624) = 5"
  by (rule ilog2_eqI) (simp_all add: pow2_def)

lemma round_rat_49_80_100:
  "round_rat (68961369294110725 / 1125899906842624) = 8620171161763841 / 140737488355328"
  by (simp add: round_rat_def ilog2_49_80_100 pow2_def round_half_even_def Let_def
      floor_numeral_div)

lemma rate_text_49_80: "rate_text 49 80 = ''61.3%''"
  by (simp add: rate_text_def dbl_overflows_def round_double_def
      round_rat_49_80 round_rat_49_80_100 float_times_def format_1f_def round_half_even_def
      Let_def floor_numeral_div)

lemma spec_rate_23_80:
  "spec_success_rate round_half_even 23 80 = ''28.8%''"
  "spec_success_rate round_half_up 23 80 = ''28.8%''"
  by (simp_all add: spec_success_rate_def round_half_even_def round_half_up_def Let_def
      floor_numeral_div)

lemma spec_rate_49_80:
  "spec_success_rate round_half_even 49 80 = ''61.2%''"
  "spec_success_rate round_half_down 49 80 = ''61.2%''"
  by (simp_all add: spec_success_rate_def round_half_even_def round_half_down_def Let_def
      floor_numeral_div)

lemma spec_rate_half: "\<not> halfway 1 2" "spec_success_rate round_half_even 1 2 = ''50.0%''"
  by (simp_all add: halfway_def spec_success_rate_def round_half_even_def Let_def)

lemma spec_rate_two_thirds:
  "\<not> halfway 2 3" "spec_success_rate round_half_even 2 3 = ''66.7%''"
  by (simp_all add: halfway_def spec_success_rate_def round_half_even_def Let_def
      floor_numeral_div)

text \<open>
  Far beyond \<open>2^40\<close> records the two roundings of the code can also move a quotient that is
  no tie across a half: for these counts, between \<open>2^42\<close> and \<open>2^43\<close>, the exact percentage
  is below 67.45 and the code prints \<^verbatim>\<open>67.5%\<close>.
\<close>

lemma ilog2_beyond: "ilog2 (5207048937879 / 7719864993149) = - 1"
  by (rule ilog2_eqI) (simp_all add: pow2_def)

lemma round_rat_beyond:
  "round_rat (5207048937879 / 7719864993149) = 6075355897322799 / 9007199254740992"
  by (simp add: round_rat_def ilog2_beyond pow2_def round_half_even_def Let_def
      floor_numeral_div)

lemma ilog2_beyond_100: "ilog2 (151883897433069975 / 2251799813685248) = 6"
  by (rule ilog2_eqI) (simp_all add: pow2_def)

lemma round_rat_beyond_100:
  "round_rat (151883897433069975 / 2251799813685248) = 4746371794783437 / 70368744177664"
  by (simp add: round_rat_def ilog2_beyond_100 pow2_def round_half_even_def Let_def
      floor_numeral_div)

lemma rate_text_beyond:
  "rate_text 5207048937879 7719864993149 = ''67.5%''"
  "(100 * 5207048937879 / 7719864993149 :: rat) < 6745 / 100"
  "spec_success_rate round_half_even 5207048937879 7719864993149 = ''67.4%''"
  "\<not> halfway 5207048937879 7719864993149"
  "(2 ^ 42 :: int) < 7719864993149"
  by (simp_all add: rate_text_def dbl_overflows_def round_double_def
      round_rat_beyond round_rat_beyond_100 float_times_def format_1f_def round_half_even_def
      spec_success_rate_def halfway_def Let_def floor_numeral_div)

section \<open>The claims about the store\<close>

text \<open>
  \<^bold>\<open>C3\<close>. After any non-empty sequence of \<open>N\<close> calls of \<^verbatim>\<open>store_result\<close> on a fresh
  store, \<open>S\<close> of them with \<^verbatim>\<open>success=true\<close>, the status has \<^verbatim>\<open>total_problems = N\<close>,
  \<^verbatim>\<open>success_count = S\<close>, \<^verbatim>\<open>error_count = N - S\<close>, and \<^verbatim>\<open>success_rate\<close> is the rendering
  \<^verbatim>\<open>f"{(S / N) * 100:.1f}%"\<close> of these final counts: the percentage in double precision with
  one decimal place and a trailing percent sign. Up to \<open>2^40\<close> records that text is a
  tenth nearest to the exact \<open>100 * S / N\<close>, written as its integer part, a point and one
  digit; and unless \<open>100 * S / N\<close> lies exactly halfway between two tenths it is the exact
  quotient rounded to one decimal place, under each of the three rules for the halves.
  At a half the text is not the rounded quotient: it is either neighbour, as the
  counterexample below shows.
\<close>

theorem store_counting:
  assumes "calls \<noteq> []"
  shows "let m = memory_status (store_all calls init_store);
             N = int (length calls);
             S = int (length (filter (\<lambda>c. rq_success (snd c)) calls))
         in total_problems m = N \<and> success_count m = S \<and> error_count m = N - S \<and>
            percent_1f S N = Inr (success_rate m) \<and>
            (N \<le> 2 ^ 40 \<longrightarrow>
               (\<exists>k::nat. success_rate m
                            = show_nat (k div 10) @ ''.'' @ show_nat (k mod 10) @ ''%'' \<and>
                          \<bar>(of_nat k :: rat) / 10 - 100 * of_int S / of_int N\<bar> \<le> 1 / 20) \<and>
               (\<not> halfway S N \<longrightarrow>
                  success_rate m = spec_success_rate round_half_even S N \<and>
                  success_rate m = spec_success_rate round_half_up S N \<and>
                  success_rate m = spec_success_rate round_half_down S N))"
proof -
  let ?m = "memory_status (store_all calls init_store)"
  have r: "success_rate ?m = rate_text (successes calls) (int (length calls))"
    using assms by (rule fresh_success_rate)
  have n: "0 < int (length calls)" using assms by simp
  then have n1: "1 \<le> int (length calls)" by linarith
  from percent_1f_ratio[OF successes_nonneg successes_le n]
  have p: "percent_1f (successes calls) (int (length calls)) = Inr (success_rate ?m)"
    by (simp add: r rate_text_def)
  have a: "\<exists>k::nat. success_rate ?m
                       = show_nat (k div 10) @ ''.'' @ show_nat (k mod 10) @ ''%'' \<and>
             \<bar>(of_nat k :: rat) / 10
                - 100 * of_int (successes calls) / of_int (int (length calls))\<bar> \<le> 1 / 20"
    if "int (length calls) \<le> 2 ^ 40"
    using percent_1f_accuracy[OF n1 that successes_nonneg successes_le]
    unfolding p by simp
  have x: "success_rate ?m
             = spec_success_rate round_half_even (successes calls) (int (length calls))"
    if "int (length calls) \<le> 2 ^ 40" "\<not> halfway (successes calls) (int (length calls))"
    using percent_1f_exact[OF n1 that(1) successes_nonneg successes_le that(2)]
    unfolding p by simp
  have y: "success_rate ?m
             = spec_success_rate round_half_up (successes calls) (int (length calls))"
    "success_rate ?m
             = spec_success_rate round_half_down (successes calls) (int (length calls))"
    if "int (length calls) \<le> 2 ^ 40" "\<not> halfway (successes calls) (int (length calls))"
    using x[OF that] spec_success_rate_agree[OF that(2)] by simp_all
  have c: "int (length (filter (\<lambda>c. rq_success (snd c)) calls)) = successes calls"
    by (simp add: successes_def)
  show ?thesis
    unfolding Let_def c using fresh_counts[of calls] p a x y by simp
qed

theorem store_counting_witness:
  "sample_calls [False, True] \<noteq> [] \<and>
   total_problems (memory_status (store_all (sample_calls [False, True]) init_store)) = 2 \<and>
   success_count (memory_status (store_all (sample_calls [False, True]) init_store)) = 1 \<and>
   error_count (memory_status (store_all (sample_calls [False, True]) init_store)) = 1 \<and>
   success_rate (memory_status (store_all (sample_calls [False, True]) init_store)) = ''50.0%'' \<and>
   \<not> halfway 1 2 \<and>
   success_rate (memory_status (store_all (sample_calls [False, True]) init_store))
     = spec_success_rate round_half_even 1 2 \<and>
   sample_calls [True, False, True] \<noteq> [] \<and>
   success_rate (memory_status (store_all (sample_calls [True, False, True]) init_store))
     = ''66.7%'' \<and>
   \<not> halfway 2 3 \<and>
   success_rate (memory_status (store_all (sample_calls [True, False, True]) init_store))
     = spec_success_rate round_half_even 2 3"
proof -
  have ne: "sample_calls [False, True] \<noteq> []" "sample_calls [True, False, True] \<noteq> []"
    by code_simp+
  have l: "int (length (sample_calls [False, True])) = 2"
    "int (length (sample_calls [True, False, True])) = 3"
    by code_simp+
  have c: "int (length (filter (\<lambda>c. rq_success (snd c)) (sample_calls [False, True]))) = 1"
    "int (length (filter (\<lambda>c. rq_success (snd c)) (sample_calls [True, False, True]))) = 2"
    by code_simp+
  have b: "(2::int) \<le> 2 ^ 40" "(3::int) \<le> 2 ^ 40" by simp_all
  note s1 = store_counting[OF ne(1), unfolded Let_def l c]
  note s2 = store_counting[OF ne(2), unfolded Let_def l c]
  note t1 = s1[THEN conjunct2, THEN conjunct2, THEN conjunct2]
  note t2 = s2[THEN conjunct2, THEN conjunct2, THEN conjunct2]
  have n1: "total_problems (memory_status (store_all (sample_calls [False, True]) init_store)) = 2"
    "success_count (memory_status (store_all (sample_calls [False, True]) init_store)) = 1"
    "error_count (memory_status (store_all (sample_calls [False, True]) init_store)) = 1"
    using s1[THEN conjunct1] s1[THEN conjunct2, THEN conjunct1]
      s1[THEN conjunct2, THEN conjunct2, THEN conjunct1] by simp_all
  have r1: "success_rate (memory_status (store_all (sample_calls [False, True]) init_store))
              = ''50.0%''"
    using t1[THEN conjunct1] unfolding percent_1f_half by simp
  have r2: "success_rate (memory_status (store_all (sample_calls [True, False, True]) init_store))
              = ''66.7%''"
    using t2[THEN conjunct1] unfolding percent_1f_two_thirds by simp
  note x1 = t1[THEN conjunct2, THEN mp, OF b(1), THEN conjunct2, THEN mp, OF spec_rate_half(1),
      THEN conjunct1]
  note x2 = t2[THEN conjunct2, THEN mp, OF b(2), THEN conjunct2, THEN mp,
      OF spec_rate_two_thirds(1), THEN conjunct1]
  show ?thesis
    by (intro conjI ne n1 r1 r2 x1 x2 spec_rate_half(1) spec_rate_two_thirds(1))
qed

text \<open>
  The claim as written makes \<^verbatim>\<open>success_rate\<close> the exact \<open>100 * S / N\<close> rounded to one
  decimal place. The code divides first and multiplies by 100 afterwards, both in double
  precision, so at a half the text can fall on either side, and no rule for the halves
  gives both of these: after 23 successes and 57 failures the exact rate is 28.75 and the
  status says \<^verbatim>\<open>28.7%\<close>, where rounding half to even or half up gives 28.8; after 49
  successes and 31 failures the exact rate is 61.25 and the status says \<^verbatim>\<open>61.3%\<close>, where
  rounding half to even or half down gives 61.2.
\<close>

theorem store_counting_counterexample:
  "int (length (sample_mix 23 57)) = 80 \<and> successes (sample_mix 23 57) = 23 \<and>
   success_rate (memory_status (store_all (sample_mix 23 57) init_store)) = ''28.7%'' \<and>
   spec_success_rate round_half_even 23 80 = ''28.8%'' \<and>
   spec_success_rate round_half_up 23 80 = ''28.8%'' \<and>
   success_rate (memory_status (store_all (sample_mix 23 57) init_store))
     \<noteq> spec_success_rate round_half_even 23 80 \<and>
   success_rate (memory_status (store_all (sample_mix 23 57) init_store))
     \<noteq> spec_success_rate round_half_up 23 80 \<and>
   int (length (sample_mix 49 31)) = 80 \<and> successes (sample_mix 49 31) = 49 \<and>
   success_rate (memory_status (store_all (sample_mix 49 31) init_store)) = ''61.3%'' \<and>
   spec_success_rate round_half_even 49 80 = ''61.2%'' \<and>
   spec_success_rate round_half_down 49 80 = ''61.2%'' \<and>
   success_rate (memory_status (store_all (sample_mix 49 31) init_store))
     \<noteq> spec_success_rate round_half_even 49 80 \<and>
   success_rate (memory_status (store_all (sample_mix 49 31) init_store))
     \<noteq> spec_success_rate round_half_down 49 80"
proof -
  have l: "int (length (sample_mix 23 57)) = 80" "int (length (sample_mix 49 31)) = 80"
    by (simp_all add: sample_mix_counts)
  have c: "successes (sample_mix 23 57) = 23" "successes (sample_mix 49 31) = 49"
    by (simp_all add: sample_mix_counts)
  have ne: "sample_mix 23 57 \<noteq> []" "sample_mix 49 31 \<noteq> []"
    using l by auto
  have r: "success_rate (memory_status (store_all (sample_mix 23 57) init_store)) = ''28.7%''"
    "success_rate (memory_status (store_all (sample_mix 49 31) init_store)) = ''61.3%''"
    unfolding fresh_success_rate[OF ne(1)] fresh_success_rate[OF ne(2)] l c
    by (rule rate_text_23_80, rule rate_text_49_80)
  show ?thesis
    unfolding r l c spec_rate_23_80 spec_rate_49_80 by simp
qed

text \<open>
  \<^bold>\<open>C4\<close>. From a state with \<^verbatim>\<open>success_count + error_count = total_problems\<close> and the four
  operation keys, every operation of the store leads to such a state: \<^verbatim>\<open>store_result\<close>
  (also when it raises) and \<^verbatim>\<open>reset_memory\<close> keep the invariant, the reading operations
  leave the state as it is (\<^const>\<open>analyze_recent_trend\<close> has no state to return),
  \<^verbatim>\<open>store_result\<close> adds one to the total and to exactly one of the two counts and leaves
  each operation count as it is or one higher, and \<^verbatim>\<open>reset_memory\<close> sets the four counts to
  zero.
\<close>

theorem store_invariant_preserved:
  assumes "store_inv st"
  shows "store_inv (snd (store_result now r st)) \<and>
         store_inv (snd (reset_memory st)) \<and>
         snd (get_memory_status st) = st \<and>
         snd (get_memory_summary st) = st \<and>
         snd (get_recent_history args st) = st \<and>
         (\<forall>k v. operation_stats (memory_status st) k = Some v \<longrightarrow>
            operation_stats (memory_status (snd (store_result now r st))) k
              \<in> {Some v, Some (v + 1)}) \<and>
         (\<forall>k \<in> {''addition'', ''subtraction'', ''multiplication'', ''division''}.
            operation_stats (memory_status (snd (reset_memory st))) k = Some 0) \<and>
         total_problems (memory_status (snd (store_result now r st)))
           = total_problems (memory_status st) + 1 \<and>
         success_count (memory_status (snd (store_result now r st)))
           = success_count (memory_status st) + (if rq_success r then 1 else 0) \<and>
         error_count (memory_status (snd (store_result now r st)))
           = error_count (memory_status st) + (if rq_success r then 0 else 1)"
proof -
  have reset: "store_inv (snd (reset_memory st))"
    by (simp add: reset_memory_def store_inv_def MemoryStatus_default_def) blast
  have zero: "\<forall>k \<in> {''addition'', ''subtraction'', ''multiplication'', ''division''}.
            operation_stats (memory_status (snd (reset_memory st))) k = Some 0"
    by (simp add: reset_memory_def MemoryStatus_default_def)
  have mono: "\<forall>k v. operation_stats (memory_status st) k = Some v \<longrightarrow>
            operation_stats (memory_status (snd (store_result now r st))) k
              \<in> {Some v, Some (v + 1)}"
    using store_result_inv(2)[OF assms] by blast
  show ?thesis
    using store_result_inv(1,3,4,5)[OF assms, of now r] reset zero mono
    by (simp only: get_memory_status_def get_memory_summary_state get_recent_history_state
        snd_conv simp_thms)
qed

theorem store_invariant_preserved_witness:
  "store_inv init_store \<and>
   store_inv (snd (store_result 0 (sample_request True) init_store)) \<and>
   store_inv (snd (reset_memory init_store)) \<and>
   total_problems (memory_status (snd (store_result 0 (sample_request True) init_store))) = 1 \<and>
   success_count (memory_status (snd (store_result 0 (sample_request True) init_store))) = 1 \<and>
   error_count (memory_status (snd (store_result 0 (sample_request True) init_store))) = 0"
proof -
  have i: "store_inv init_store"
    by (simp add: init_store_def store_inv_def MemoryStatus_default_def) blast
  show ?thesis
    using i store_invariant_preserved[OF i, of 0 "sample_request True" Map.empty]
    by (simp add: init_store_def MemoryStatus_default_def sample_request_def)
qed

text \<open>
  \<^bold>\<open>C5\<close>. The trend is \<^verbatim>\<open>insufficient data\<close> for fewer than two records; otherwise, with
  \<open>s\<close> the successes among the last five records, it is \<^verbatim>\<open>strongly improving\<close> for
  \<open>s \<ge> 4\<close>, \<^verbatim>\<open>improving\<close> for \<open>s = 3\<close>, \<^verbatim>\<open>mixed\<close> for \<open>s = 2\<close> and \<^verbatim>\<open>declining\<close>
  for \<open>s \<le> 1\<close>.
\<close>

theorem trend_classification:
  "analyze_recent_trend st =
     (let h = session_history st;
          s = length (filter pr_success (rev (take 5 (rev h))))
      in if length h < 2 then ''insufficient data''
         else if 4 \<le> s then ''strongly improving''
         else if s = 3 then ''improving''
         else if s = 2 then ''mixed''
         else ''declining'')"
  by (simp add: analyze_recent_trend_def last_five Let_def)

theorem trend_classification_witness:
  "analyze_recent_trend (store_all (sample_calls [True, True, True, True, False]) init_store)
     = ''strongly improving'' \<and>
   analyze_recent_trend (store_all (sample_calls [True, True, True, False, False]) init_store)
     = ''improving'' \<and>
   analyze_recent_trend (store_all (sample_calls [True, True, False, False, False]) init_store)
     = ''mixed'' \<and>
   analyze_recent_trend (store_all (sample_calls [True, False, False, False, False]) init_store)
     = ''declining'' \<and>
   analyze_recent_trend (store_all (sample_calls [True]) init_store) = ''insufficient data''"
proof -
  let ?rec = "map (\<lambda>(now, r). problem_record now r)"
  have h: "session_history (store_all cs init_store) = ?rec cs" for cs
    using store_all_history[OF store_ready_init, of cs] by (simp add: init_store_def)
  have l: "length (?rec (sample_calls [True, True, True, True, False])) = 5"
    "length (?rec (sample_calls [True, True, True, False, False])) = 5"
    "length (?rec (sample_calls [True, True, False, False, False])) = 5"
    "length (?rec (sample_calls [True, False, False, False, False])) = 5"
    "length (?rec (sample_calls [True])) = 1"
    by code_simp+
  have s: "length (filter pr_success (rev (take 5 (rev
             (?rec (sample_calls [True, True, True, True, False])))))) = 4"
    "length (filter pr_success (rev (take 5 (rev
             (?rec (sample_calls [True, True, True, False, False])))))) = 3"
    "length (filter pr_success (rev (take 5 (rev
             (?rec (sample_calls [True, True, False, False, False])))))) = 2"
    "length (filter pr_success (rev (take 5 (rev
             (?rec (sample_calls [True, False, False, False, False])))))) = 1"
    by code_simp+
  show ?thesis
    using trend_classification[of "store_all (sample_calls [True, True, True, True, False]) init_store"]
      trend_classification[of "store_all (sample_calls [True, True, True, False, False]) init_store"]
      trend_classification[of "store_all (sample_calls [True, True, False, False, False]) init_store"]
      trend_classification[of "store_all (sample_calls [True, False, False, False, False]) init_store"]
      trend_classification[of "store_all (sample_calls [True]) init_store"]
    unfolding Let_def h l s by simp
qed



text \<open>
  \<^bold>\<open>C7\<close>. In any state reached by storing records on a fresh store, storing one more
  record whose problem text is \<^verbatim>\<open>3 + 4x5\<close> raises the \<^verbatim>\<open>addition\<close> count by one and the
  \<^verbatim>\<open>multiplication\<close> count by one, and leaves the other two counts as they are.
\<close>

theorem double_counting:
  "let st = store_all calls init_store;
       st' = snd (store_result now (r\<lparr>rq_problem := ''3 + 4x5''\<rparr>) st);
       before = operation_stats (memory_status st);
       after = operation_stats (memory_status st')
   in (\<exists>a. before ''addition'' = Some a \<and> after ''addition'' = Some (a + 1)) \<and>
      (\<exists>m. before ''multiplication'' = Some m \<and> after ''multiplication'' = Some (m + 1)) \<and>
      after ''subtraction'' = before ''subtraction'' \<and>
      after ''division'' = before ''division''"
proof -
  let ?st = "store_all calls init_store"
  let ?s = "operation_stats (memory_status ?st)"
  have r: "store_ready ?st" by (rule store_all_ready[OF store_ready_init])
  then obtain a m where k: "?s ''addition'' = Some a" "?s ''multiplication'' = Some m"
    unfolding store_ready_def by (auto simp: dom_def)
  have after: "operation_stats (memory_status
                 (snd (store_result now (r\<lparr>rq_problem := ''3 + 4x5''\<rparr>) ?st)))
               = bump_stats ''3 + 4x5'' ?s"
    by (simp add: store_result_ready[OF r])
  have "bump_stats ''3 + 4x5'' ?s ''addition'' = Some (a + 1)"
    "bump_stats ''3 + 4x5'' ?s ''multiplication'' = Some (m + 1)"
    "bump_stats ''3 + 4x5'' ?s ''subtraction'' = ?s ''subtraction''"
    "bump_stats ''3 + 4x5'' ?s ''division'' = ?s ''division''"
    by (simp_all add: bump_stats_def has_sample k)
  then show ?thesis
    unfolding Let_def after using k by simp
qed

theorem double_counting_witness:
  "operation_stats (memory_status (snd (store_result 0
      ((sample_request True)\<lparr>rq_problem := ''3 + 4x5''\<rparr>) init_store))) ''addition'' = Some 1 \<and>
   operation_stats (memory_status (snd (store_result 0
      ((sample_request True)\<lparr>rq_problem := ''3 + 4x5''\<rparr>) init_store))) ''multiplication''
     = Some 1 \<and>
   operation_stats (memory_status (snd (store_result 0
      ((sample_request True)\<lparr>rq_problem := ''3 + 4x5''\<rparr>) init_store))) ''subtraction''
     = Some 0"
proof -
  have i: "operation_stats (memory_status init_store) ''addition'' = Some 0"
    "operation_stats (memory_status init_store) ''multiplication'' = Some 0"
    "operation_stats (memory_status init_store) ''subtraction'' = Some 0"
    by (simp_all add: init_store_def MemoryStatus_default_def)
  show ?thesis
    using double_counting[of "[]" 0 "sample_request True"] i unfolding Let_def by simp
qed

text \<open>
  \<^bold>\<open>C10\<close>. With a non-empty history, the \<^verbatim>\<open>get_recent_history\<close> tool called with
  \<^verbatim>\<open>limit = 0\<close> answers with the whole history, and \<^verbatim>\<open>count\<close> is its length: the window
  is the slice \<^verbatim>\<open>history[-0:]\<close>.
\<close>

theorem recent_history_limit_zero:
  assumes "session_history st \<noteq> []"
  shows "\<exists>d. fst (get_recent_history (args(''limit'' \<mapsto> JInt 0)) st) = Inr d \<and>
             recent_problems d = session_history st \<and>
             count d = int (length (session_history st))"
proof -
  let ?h = "session_history st"
  have "0 \<le> int (length (filter pr_success ?h))"
    "int (length (filter pr_success ?h)) \<le> int (length ?h)" "0 < int (length ?h)"
    using assms by simp_all
  from percent_1f_ratio[OF this]
  obtain rate where p: "percent_1f (int (length (filter pr_success ?h))) (int (length ?h))
                        = Inr rate" by blast
  show ?thesis
    using assms p
    by (simp add: get_recent_history_def neg_index_def py_slice_from_zero Let_def)
qed

theorem recent_history_limit_zero_witness:
  "session_history (snd (store_result 0 (sample_request True) init_store)) \<noteq> [] \<and>
   (\<exists>d. fst (get_recent_history [''limit'' \<mapsto> JInt 0]
               (snd (store_result 0 (sample_request True) init_store))) = Inr d \<and>
        recent_problems d = [problem_record 0 (sample_request True)] \<and> count d = 1)"
proof -
  let ?st = "snd (store_result 0 (sample_request True) init_store)"
  have h: "session_history ?st = [problem_record 0 (sample_request True)]"
    unfolding store_result_ready[OF store_ready_init] by (simp add: init_store_def)
  then have ne: "session_history ?st \<noteq> []" by simp
  show ?thesis
    using recent_history_limit_zero[OF ne, of Map.empty] h by simp
qed

section \<open>The recorded session, stage by stage\<close>

lemma sample_parse_perception:
  "parse_llm_response sample_lib sample_perception_text = Inr (JDict sample_perception_json)"
  by code_simp

lemma sample_parse_action:
  "parse_llm_response sample_lib sample_action_text = Inr (JDict sample_action_json)"
  by code_simp

lemma sample_fix:
  "validate_and_fix_result sample_lib sample_action_json = Inr sample_action_fixed"
  by code_simp

lemma garbled_parse:
  "parse_llm_response sample_lib ''I think the answer is 8.''
   = Inl (ValueError ''Failed to parse LLM response as JSON: Expecting value: line 1 column 1 (char 0)'')"
  by code_simp

lemma sample_perception_run:
  "perception_analyze sample_lib sample_model expr lg
   = (sample_perception, lg @ [PerceptionPrompt expr])"
  by (simp add: perception_analyze_def Let_def sample_model_def sample_parse_perception)
     (simp add: sample_lib_def)

lemma sample_action_run:
  "action_execute sample_lib sample_model i lg = (sample_action, lg @ [ActionPrompt i])"
  by (simp add: action_execute_def Let_def sample_model_def sample_parse_action sample_fix)
     (simp add: sample_lib_def)

lemma ilog2_06: "ilog2 (3 / 5) = - 1"
  by (rule ilog2_eqI) (simp_all add: pow2_def)

lemma py_lit_06: "py_lit (6 / 10) = Fin (5404319552844595 / 9007199254740992)"
  by (simp add: py_lit_def round_double_def dbl_overflows_def round_rat_def ilog2_06 pow2_def
      round_half_even_def Let_def floor_numeral_div)

section \<open>The claims about the orchestrator\<close>

text \<open>
  \<^bold>\<open>C1\<close>, as amended. When the model raises on the perception prompt or answers with a
  text that does not parse, \<^verbatim>\<open>analyze\<close> returns the bundle of \<^verbatim>\<open>_create_error_result\<close>:
  perception invalid; memory \<^verbatim>\<open>conservative_approach\<close> with \<^verbatim>\<open>confidence_modifier\<close> 0.5;
  decision \<^verbatim>\<open>conservative_detailed\<close> with \<^verbatim>\<open>final_confidence\<close> 0.0, working steps shown,
  \<^verbatim>\<open>verification_level\<close> \<^verbatim>\<open>extra\<close> and high risk; action result
  \<^verbatim>\<open>Error: perception_error\<close> with confidence 0.0; \<^verbatim>\<open>success\<close> false. The one call made to
  the model is the perception prompt.
\<close>

theorem perception_failure_bundle:
  assumes "orc (length lg) (PerceptionPrompt expr) = Raises m \<or>
           (\<exists>t err. orc (length lg) (PerceptionPrompt expr) = Text t \<and>
                      parse_llm_response lib t = Inl err)"
  shows "case analyze lib orc now expr summary_text lg of
           (bundle, lg') \<Rightarrow>
             is_valid (perception bundle) = False \<and>
             strategy_recommendation (memory bundle) = conservative_approach \<and>
             confidence_modifier (memory bundle) = Fin (1 / 2) \<and>
             similar_problems_found (memory bundle) = 0 \<and>
             selected_method (decision bundle) = conservative_detailed \<and>
             final_confidence (decision bundle) = Fin 0 \<and>
             show_working_steps (decision bundle) = True \<and>
             verification_level (decision bundle) = Extra \<and>
             risk_assessment (decision bundle) = HighRisk \<and>
             result (action bundle) = ''Error: perception_error'' \<and>
             confidence (action bundle) = Fin 0 \<and>
             success bundle = False \<and>
             lg' = lg @ [PerceptionPrompt expr]"
proof -
  from assms perception_analyze_failed[of orc lg expr m lib] obtain msg where
    p: "perception_analyze lib orc expr lg =
          (perception_error_response expr msg, lg @ [PerceptionPrompt expr])" by blast
  have "\<not> is_valid (perception_error_response expr msg)"
    by (simp add: perception_error_response_def)
  from analyze_short_circuit[OF p this]
  show ?thesis
    by (simp add: create_error_result_def perception_error_response_def)
qed

theorem perception_failure_bundle_witness:
  "failing_model (length ([] :: prompt list)) (PerceptionPrompt ''5 + 3'')
     = Raises ''503 The model is overloaded'' \<and>
   is_valid (perception (fst (analyze sample_lib failing_model 0 ''5 + 3'' ''fresh start'' [])))
     = False \<and>
   confidence_modifier (memory (fst (analyze sample_lib failing_model 0 ''5 + 3'' ''fresh start'' [])))
     = Fin (1 / 2) \<and>
   result (action (fst (analyze sample_lib failing_model 0 ''5 + 3'' ''fresh start'' [])))
     = ''Error: perception_error'' \<and>
   snd (analyze sample_lib failing_model 0 ''5 + 3'' ''fresh start'' [])
     = [PerceptionPrompt ''5 + 3''] \<and>
   garbled_model (length ([] :: prompt list)) (PerceptionPrompt ''5 + 3'')
     = Text ''I think the answer is 8.'' \<and>
   success (fst (analyze sample_lib garbled_model 0 ''5 + 3'' ''fresh start'' [])) = False \<and>
   snd (analyze sample_lib garbled_model 0 ''5 + 3'' ''fresh start'' [])
     = [PerceptionPrompt ''5 + 3'']"
proof -
  have f: "failing_model (length ([] :: prompt list)) (PerceptionPrompt ''5 + 3'')
           = Raises ''503 The model is overloaded''"
    by (simp add: failing_model_def)
  then have 1: "failing_model (length ([] :: prompt list)) (PerceptionPrompt ''5 + 3'')
               = Raises ''503 The model is overloaded'' \<or>
             (\<exists>t err. failing_model (length ([] :: prompt list)) (PerceptionPrompt ''5 + 3'') = Text t
                \<and> parse_llm_response sample_lib t = Inl err)" by simp
  have g: "garbled_model (length ([] :: prompt list)) (PerceptionPrompt ''5 + 3'')
           = Text ''I think the answer is 8.''"
    by (simp add: garbled_model_def)
  with garbled_parse have 2: "garbled_model (length ([] :: prompt list)) (PerceptionPrompt ''5 + 3'')
               = Raises ''none'' \<or>
             (\<exists>t err. garbled_model (length ([] :: prompt list)) (PerceptionPrompt ''5 + 3'') = Text t
                \<and> parse_llm_response sample_lib t = Inl err)" by blast
  from perception_failure_bundle[of failing_model "[]" "''5 + 3''"
      "''503 The model is overloaded''" sample_lib 0 "''fresh start''"]
    perception_failure_bundle[of garbled_model "[]" "''5 + 3''"
      "''none''" sample_lib 0 "''fresh start''"] 1 2 f g
  show ?thesis by (simp add: case_prod_unfold)
qed

text \<open>
  The claim as written names the fallback values of the stages themselves (0.6, then 0.5
  and \<^verbatim>\<open>high\<close>); the bundle of a failed perception holds none of the three.
\<close>

theorem perception_failure_counterexample:
  "failing_model 0 (PerceptionPrompt ''5 + 3'') = Raises ''503 The model is overloaded'' \<and>
   confidence_modifier (memory (fst (analyze sample_lib failing_model 0 ''5 + 3'' ''fresh start'' [])))
     \<noteq> py_lit (6 / 10) \<and>
   final_confidence (decision (fst (analyze sample_lib failing_model 0 ''5 + 3'' ''fresh start'' [])))
     \<noteq> Fin (1 / 2) \<and>
   verification_level (decision (fst (analyze sample_lib failing_model 0 ''5 + 3'' ''fresh start'' [])))
     \<noteq> High"
proof -
  have p: "perception_analyze sample_lib failing_model ''5 + 3'' []
           = (perception_error_response ''5 + 3'' ''503 The model is overloaded'',
              [PerceptionPrompt ''5 + 3''])"
    by (simp add: perception_analyze_def failing_model_def Let_def)
  have "\<not> is_valid (perception_error_response ''5 + 3'' ''503 The model is overloaded'')"
    by (simp add: perception_error_response_def)
  from analyze_short_circuit[OF p this, of 0 "''fresh start''"]
  show ?thesis
    using py_lit_06 by (simp add: create_error_result_def failing_model_def)
qed

text \<open>
  \<^bold>\<open>C2\<close>. Whenever the bundle of \<^verbatim>\<open>analyze\<close> holds a valid perception, so that the run
  reached the action stage, its \<^verbatim>\<open>success\<close> flag is the negation of
  \<^verbatim>\<open>action.result.startswith("Error")\<close>.
\<close>

theorem success_flag:
  assumes "is_valid (perception (fst (analyze lib orc now expr summary_text lg)))"
  shows "success (fst (analyze lib orc now expr summary_text lg)) =
           (\<not> startswith (result (action (fst (analyze lib orc now expr summary_text lg)))) ''Error'')"
proof -
  obtain p lg1 where p: "perception_analyze lib orc expr lg = (p, lg1)"
    by (cases "perception_analyze lib orc expr lg")
  show ?thesis
  proof (cases "is_valid p")
    case False
    from analyze_short_circuit[OF p False]
    have "perception (fst (analyze lib orc now expr summary_text lg)) = p"
      by (simp add: create_error_result_def)
    with assms False show ?thesis by simp
  next
    case True
    then show ?thesis
      by (simp add: analyze_def p Let_def split: prod.split)
  qed
qed

theorem success_flag_witness:
  "is_valid (perception (fst (analyze sample_lib sample_model 0 ''5 + 3'' ''fresh start'' []))) \<and>
   result (action (fst (analyze sample_lib sample_model 0 ''5 + 3'' ''fresh start'' []))) = ''8'' \<and>
   success (fst (analyze sample_lib sample_model 0 ''5 + 3'' ''fresh start'' [])) = True"
proof -
  have a: "analyze sample_lib sample_model 0 ''5 + 3'' ''fresh start'' [] =
    (case memory_consult sample_lib sample_model
            \<lparr> mi_expression = ''5 + 3'', mi_perception_data = sample_perception,
              memory_summary = ''fresh start'' \<rparr> [PerceptionPrompt ''5 + 3''] of
       (memory_result, lg2) \<Rightarrow>
    (case decision_decide sample_lib sample_model
            \<lparr> di_expression = ''5 + 3'', di_perception_data = sample_perception,
              memory_data = memory_result \<rparr> lg2 of
       (decision_result, lg3) \<Rightarrow>
         (\<lparr> expression = ''5 + 3'', perception = sample_perception,
            memory = memory_result, decision = decision_result,
            action = sample_action, success = True, timestamp = 0 \<rparr>,
          lg3 @ [ActionPrompt \<lparr> ai_expression = ''5 + 3'', ai_perception_data = sample_perception,
                   decision_data = decision_result \<rparr>])))"
    by (simp add: analyze_def sample_perception_run sample_action_run Let_def
        sample_perception_def sample_action_def startswith_def split: prod.split)
  have v: "is_valid (perception (fst (analyze sample_lib sample_model 0 ''5 + 3'' ''fresh start'' [])))"
    unfolding a by (simp add: case_prod_unfold sample_perception_def)
  have r: "result (action (fst (analyze sample_lib sample_model 0 ''5 + 3'' ''fresh start'' []))) = ''8''"
    unfolding a by (simp add: case_prod_unfold sample_action_def)
  show ?thesis
    using success_flag[OF v] v r by (simp add: startswith_def)
qed



section \<open>The claim about the action stage\<close>

text \<open>
  \<^bold>\<open>C9\<close>, as amended. When \<^verbatim>\<open>_validate_and_fix_result\<close> returns, each of \<^verbatim>\<open>result\<close>,
  \<^verbatim>\<open>verification\<close> and \<^verbatim>\<open>execution_notes\<close> that is present holds \<^verbatim>\<open>str\<close> of its old value
  (a string stays as it is); \<^verbatim>\<open>steps\<close> holds the list of \<^verbatim>\<open>str\<close> of its elements, or the
  one-element list of \<^verbatim>\<open>str\<close> of a value that is no list; \<^verbatim>\<open>confidence\<close> holds a float in
  \<open>[0, 1]\<close>: the clamped \<^verbatim>\<open>float(v)\<close> whenever \<^verbatim>\<open>float\<close> converts the value (a number, a
  bool, a string it can read), and 0.5 when \<^verbatim>\<open>float\<close> raises \<^verbatim>\<open>ValueError\<close> or
  \<^verbatim>\<open>TypeError\<close>; absent keys stay absent and all other keys keep their values.
\<close>

theorem action_coercion:
  assumes "validate_and_fix_result lib d = Inr d'"
  shows "(\<forall>v. map_of d ''result'' = Some v \<longrightarrow>
            map_of d' ''result'' = Some (JStr (py_str lib v))) \<and>
         (\<forall>v. map_of d ''steps'' = Some v \<longrightarrow>
            map_of d' ''steps'' =
              Some (JList (case v of
                             JList xs \<Rightarrow> map (\<lambda>step. JStr (py_str lib step)) xs
                           | _ \<Rightarrow> [JStr (py_str lib v)]))) \<and>
         (\<forall>v. map_of d ''confidence'' = Some v \<longrightarrow>
            (\<exists>q. map_of d' ''confidence'' = Some (JFloat (Fin q)) \<and> 0 \<le> q \<and> q \<le> 1 \<and>
                 (case py_float lib v of
                    Inr c \<Rightarrow> Fin q = py_max (Fin 0) (py_min (Fin 1) c)
                  | Inl e \<Rightarrow> q = 1 / 2))) \<and>
         (\<forall>v. map_of d ''verification'' = Some v \<longrightarrow>
            map_of d' ''verification'' = Some (JStr (py_str lib v))) \<and>
         (\<forall>v. map_of d ''execution_notes'' = Some v \<longrightarrow>
            map_of d' ''execution_notes'' = Some (JStr (py_str lib v))) \<and>
         (\<forall>k. map_of d k = None \<longrightarrow> map_of d' k = None) \<and>
         (\<forall>k. k \<notin> {''result'', ''steps'', ''confidence'', ''verification'', ''execution_notes''}
            \<longrightarrow> map_of d' k = map_of d k)"
proof -
  note m = validate_and_fix_result_map[OF assms]
  have r: "map_of d' ''result'' = map_option (\<lambda>v. JStr (py_str lib v)) (map_of d ''result'')"
    and s: "map_of d' ''steps'' = map_option (fixed_steps lib) (map_of d ''steps'')"
    and c: "map_of d' ''confidence'' = map_option (clamped lib) (map_of d ''confidence'')"
    and v: "map_of d' ''verification''
              = map_option (\<lambda>v. JStr (py_str lib v)) (map_of d ''verification'')"
    and e: "map_of d' ''execution_notes''
              = map_option (\<lambda>v. JStr (py_str lib v)) (map_of d ''execution_notes'')"
    unfolding m by simp_all
  have n: "\<forall>k. map_of d k = None \<longrightarrow> map_of d' k = None"
    unfolding m by simp
  have o: "\<forall>k. k \<notin> {''result'', ''steps'', ''confidence'', ''verification'', ''execution_notes''}
            \<longrightarrow> map_of d' k = map_of d k"
    unfolding m by simp
  have cq: "\<exists>q. map_of d' ''confidence'' = Some (JFloat (Fin q)) \<and> 0 \<le> q \<and> q \<le> 1 \<and>
                 (case py_float lib v of
                    Inr c \<Rightarrow> Fin q = py_max (Fin 0) (py_min (Fin 1) c)
                  | Inl e \<Rightarrow> q = 1 / 2)"
    if "map_of d ''confidence'' = Some v" for v
  proof -
    from clamped_unit[of lib v] obtain q where
      q: "clamped lib v = JFloat (Fin q)" "0 \<le> q" "q \<le> 1" by blast
    have "case py_float lib v of
            Inr c \<Rightarrow> Fin q = py_max (Fin 0) (py_min (Fin 1) c)
          | Inl e \<Rightarrow> q = 1 / 2"
      using q(1) by (simp add: clamped_def split: sum.splits)
    then show ?thesis using q that c by auto
  qed
  show ?thesis
    using r s v e n o cq by (simp add: fixed_steps_def)
qed

theorem action_coercion_witness:
  "validate_and_fix_result sample_lib sample_action_json = Inr sample_action_fixed \<and>
   map_of sample_action_fixed ''result'' = Some (JStr ''8'') \<and>
   map_of sample_action_fixed ''steps'' = Some (JList [JStr ''5 + 3 = 8'']) \<and>
   map_of sample_action_fixed ''execution_notes'' = Some (JStr ''None'') \<and>
   (\<exists>q. map_of sample_action_fixed ''confidence'' = Some (JFloat (Fin q)) \<and> 0 \<le> q \<and> q \<le> 1)"
proof -
  have m: "map_of sample_action_json ''result'' = Some (JInt 8)"
    "map_of sample_action_json ''steps'' = Some (JStr ''5 + 3 = 8'')"
    "map_of sample_action_json ''confidence'' = Some (JFloat (Fin (3 / 2)))"
    "map_of sample_action_json ''execution_notes'' = Some JNull"
    by (simp_all add: sample_action_json_def)
  have s: "py_str sample_lib (JInt 8) = ''8''" "py_str sample_lib (JStr ''5 + 3 = 8'') = ''5 + 3 = 8''"
    "py_str sample_lib JNull = ''None''"
    by (simp_all add: py_str_def show_int_def)
  from action_coercion[OF sample_fix] m s
  show ?thesis using sample_fix by auto
qed

text \<open>
  The claim as written replaces every confidence that is no number by 0.5; the string
  \<^verbatim>\<open>"0.9"\<close> and the boolean \<^verbatim>\<open>true\<close> are converted and clamped instead.
\<close>

theorem action_coercion_counterexample:
  "validate_and_fix_result sample_lib [(''confidence'', JStr ''0.9'')]
     = Inr [(''confidence'', JFloat (Fin (8106479329266893 / 9007199254740992)))] \<and>
   validate_and_fix_result sample_lib [(''confidence'', JBool True)]
     = Inr [(''confidence'', JFloat (Fin 1))] \<and>
   validate_and_fix_result sample_lib [(''confidence'', JStr ''0.9'')]
     \<noteq> Inr [(''confidence'', JFloat (Fin (1 / 2)))] \<and>
   validate_and_fix_result sample_lib [(''confidence'', JBool True)]
     \<noteq> Inr [(''confidence'', JFloat (Fin (1 / 2)))]"
  by code_simp

text \<open>
  An int beyond the range of a double is a number that is not clamped: \<^verbatim>\<open>float\<close> raises
  \<^verbatim>\<open>OverflowError\<close>, which the \<^verbatim>\<open>except (ValueError, TypeError)\<close> lets through.
\<close>

lemma coercion_overflow:
  "validate_and_fix_result lib [(''confidence'', JInt (10 ^ 400))] = Inl OverflowError"
  by (simp add: validate_and_fix_result_def py_float_def int_to_float_def dbl_overflows_def)

end
